theory Spec2Isabelle
  imports Complex_Main "HOL-Library.Multiset"
begin

section \<open>Data model\<close>

text \<open>
  Python exceptions are values.  The type stands for the instances of \<^verbatim>\<open>Exception\<close>, which
  is what every \<^verbatim>\<open>except Exception\<close> handler of the sources catches.
\<close>

datatype exn =
    BuilderError string
  | AnalysisError string
  | ServiceError string
  | ValueError
  | ZeroDivisionError
  | IndexError
  | AttributeError

text \<open>
  Python floats are IEEE 754 doubles.  A finite double is the real number it stands for;
  infinities and NaN are left out, and so is a result that leaves the range of the doubles
  (on those \<^verbatim>\<open>int()\<close> raises).  Every arithmetic operation on doubles gives the exact result
  rounded to a double.  The rounding is a parameter of the model: with \<open>rnd\<close> the rounding, a
  product is \<open>rounded rnd (a * b)\<close>, a difference \<open>rounded rnd (a - b)\<close>, a quotient
  \<open>rounded rnd (a / b)\<close>, and the literal \<^verbatim>\<open>0.85\<close> is \<open>rounded rnd (85 / 100)\<close>.  What the
  model fixes of a rounding is that it is monotone and that it leaves alone a number
  \<open>n / 2 ^ k\<close> with \<open>\<bar>n\<bar> \<le> 2 ^ 53\<close> and \<open>k \<le> 1022\<close>, which is a double.
\<close>

typedef rounding =
  "{f :: real \<Rightarrow> real.
      mono f
      \<and> (\<forall>(n::int) (k::nat). \<bar>n\<bar> \<le> 2 ^ 53 \<and> k \<le> 1022 \<longrightarrow>
             f (of_int n / 2 ^ k) = of_int n / 2 ^ k)}"
  morphisms rounded Abs_rounding
  by (rule exI [of _ "\<lambda>x. x"]) (simp add: mono_def)

setup_lifting type_definition_rounding

text \<open>
  Modelled from the spec: the class \<^verbatim>\<open>BBox\<close> is declared outside the sources at hand.  The
  spec gives it four coordinates \<^verbatim>\<open>(x0, y0, x1, y1)\<close> and the derived
  \<^verbatim>\<open>area = (x1-x0)*(y1-y0)\<close>, here computed on doubles.  An instance of such a class is
  truthy, so an optional \<^verbatim>\<open>BBox\<close> attribute is falsy exactly when it is missing or
  \<^verbatim>\<open>None\<close>.
\<close>

record BBox =
  x0 :: real
  y0 :: real
  x1 :: real
  y1 :: real

definition area :: "rounding \<Rightarrow> BBox \<Rightarrow> real" where
  "area rnd b = rounded rnd (rounded rnd (x1 b - x0 b) * rounded rnd (y1 b - y0 b))"

text \<open>
  The attributes of \<^verbatim>\<open>EditableElement\<close> that the export service reads.  An attribute that may
  be \<^verbatim>\<open>None\<close> (or missing, for \<^verbatim>\<open>bbox_global\<close>) is an option.
\<close>

datatype EditableElement = EditableElement
  (element_id: string)
  (element_type: string)
  (content: "string option")
  (bbox: BBox)
  (bbox_global: "BBox option")
  (image_path: "string option")
  (inpainted_background_path: "string option")
  (children: "EditableElement list")

text \<open>Truthiness of an optional string: neither \<^verbatim>\<open>None\<close> nor empty.\<close>

definition truthy_str :: "string option \<Rightarrow> bool" where
  "truthy_str p = (case p of None \<Rightarrow> False | Some s \<Rightarrow> s \<noteq> [])"

definition str_of :: "string option \<Rightarrow> string" where
  "str_of p = (case p of None \<Rightarrow> [] | Some s \<Rightarrow> s)"

text \<open>
  \<^verbatim>\<open>str.strip()\<close>.  A string is a list of code points below 256; the white space
  characters of \<^verbatim>\<open>str.isspace\<close> in that range are the ones below (with U+0085 and U+00A0).
\<close>

definition is_space :: "char \<Rightarrow> bool" where
  "is_space c = (c \<in> set [CHR '' '', CHR 0x09, CHR 0x0A, CHR 0x0B, CHR 0x0C, CHR 0x0D,
                            CHR 0x1C, CHR 0x1D, CHR 0x1E, CHR 0x1F, CHR 0x85, CHR 0xA0])"

definition strip :: "string \<Rightarrow> string" where
  "strip s = rev (dropWhile is_space (rev (dropWhile is_space s)))"

section \<open>Coordinate frame and scaling\<close>

text \<open>
  \<^verbatim>\<open>if depth == 0: bbox = elem.bbox\<close>, otherwise
  \<^verbatim>\<open>elem.bbox_global if hasattr(elem, 'bbox_global') and elem.bbox_global else elem.bbox\<close>.
\<close>

definition select_bbox :: "EditableElement \<Rightarrow> int \<Rightarrow> BBox" where
  "select_bbox elem depth =
     (if depth = 0 then bbox elem
      else (case bbox_global elem of Some g \<Rightarrow> g | None \<Rightarrow> bbox elem))"

text \<open>Python's \<^verbatim>\<open>int(x)\<close> on a finite double cuts the fraction off, towards zero.\<close>

definition py_int :: "real \<Rightarrow> int" where
  "py_int x = (if x < 0 then \<lceil>x\<rceil> else \<lfloor>x\<rfloor>)"

text \<open>\<^verbatim>\<open>int(bbox.x0 * scale_x)\<close> and its three likes: \<^verbatim>\<open>int\<close> of the product of doubles.\<close>

definition bbox_list :: "rounding \<Rightarrow> BBox \<Rightarrow> real \<Rightarrow> real \<Rightarrow> int list" where
  "bbox_list rnd b scale_x scale_y =
     [py_int (rounded rnd (x0 b * scale_x)), py_int (rounded rnd (y0 b * scale_y)),
      py_int (rounded rnd (x1 b * scale_x)), py_int (rounded rnd (y1 b * scale_y))]"

section \<open>The document builder\<close>

text \<open>
  The builder (\<^verbatim>\<open>PPTXBuilder\<close>) is outside the sources at hand.  A slide is the sequence of
  calls that succeeded on it, in order.  The builder itself is a parameter that says which
  call raises on which slide; a call that raises leaves the slide as it was.
\<close>

datatype call =
    AddTextElement string "int list" "string option" "string option"
  | AddImageElement string "int list"
  | AddImagePlaceholder "int list"
  | AddPicture string

type_synonym slide = "call list"

type_synonym builder = "slide \<Rightarrow> call \<Rightarrow> exn option"

definition invoke :: "builder \<Rightarrow> slide \<Rightarrow> call \<Rightarrow> exn + slide" where
  "invoke B s c = (case B s c of Some e \<Rightarrow> Inl e | None \<Rightarrow> Inr (s @ [c]))"

text \<open>\<^verbatim>\<open>try: builder.add_...(...)  except Exception as e: logger...\<close>\<close>

definition try_invoke :: "builder \<Rightarrow> slide \<Rightarrow> call \<Rightarrow> slide" where
  "try_invoke B s c = (case invoke B s c of Inl e \<Rightarrow> s | Inr s' \<Rightarrow> s')"

section \<open>Dominant-child check\<close>

text \<open>Python's \<^verbatim>\<open>a / b\<close> on doubles raises on a zero divisor.\<close>

definition truediv :: "rounding \<Rightarrow> real \<Rightarrow> real \<Rightarrow> exn + real" where
  "truediv rnd a b = (if b = 0 then Inl ZeroDivisionError else Inr (rounded rnd (a / b)))"

text \<open>\<^verbatim>\<open>coverage_ratio = child_area / parent_area if parent_area > 0 else 0\<close>\<close>

definition coverage_ratio :: "rounding \<Rightarrow> real \<Rightarrow> real \<Rightarrow> exn + real" where
  "coverage_ratio rnd child_area parent_area =
     (if parent_area > 0 then truediv rnd child_area parent_area else Inr 0)"

definition child_bbox :: "EditableElement \<Rightarrow> BBox" where
  "child_bbox child = (case bbox_global child of Some g \<Rightarrow> g | None \<Rightarrow> bbox child)"

definition max_child_coverage_ratio :: "rounding \<Rightarrow> real" where
  "max_child_coverage_ratio rnd = rounded rnd (85 / 100)"

text \<open>The loop over the children, which stops at the first dominant child.\<close>

fun has_dominant_child :: "rounding \<Rightarrow> real \<Rightarrow> EditableElement list \<Rightarrow> exn + bool" where
  "has_dominant_child rnd parent_area [] = Inr False"
| "has_dominant_child rnd parent_area (child # rest) =
     (case coverage_ratio rnd (area rnd (child_bbox child)) parent_area of
        Inl e \<Rightarrow> Inl e
      | Inr r \<Rightarrow>
          if r > max_child_coverage_ratio rnd then Inr True
          else has_dominant_child rnd parent_area rest)"

text \<open>\<^verbatim>\<open>parent_area = (bbox.x1 - bbox.x0) * (bbox.y1 - bbox.y0)\<close>, on doubles.\<close>

definition should_use_recursive_render ::
    "rounding \<Rightarrow> BBox \<Rightarrow> EditableElement \<Rightarrow> exn + bool" where
  "should_use_recursive_render rnd b elem =
     (if children elem \<noteq> [] \<and> truthy_str (inpainted_background_path elem) then
        (case has_dominant_child rnd
                (rounded rnd (rounded rnd (x1 b - x0 b) * rounded rnd (y1 b - y0 b)))
                (children elem) of
           Inl e \<Rightarrow> Inl e
         | Inr d \<Rightarrow> Inr (\<not> d))
      else Inr False)"

section \<open>Recursive composition\<close>

text \<open>
  \<^verbatim>\<open>_add_editable_elements_to_slide\<close>: the loop over the elements, and its body for one
  element.  \<^verbatim>\<open>path_exists\<close> is \<^verbatim>\<open>os.path.exists\<close> on the file system of the call.  The
  calls to add a text or an image are guarded by a handler; the call to add a placeholder is
  not, so its exception leaves the function.
\<close>

function add_editable_elements_to_slide ::
    "rounding \<Rightarrow> builder \<Rightarrow> (string \<Rightarrow> bool) \<Rightarrow> slide \<Rightarrow> EditableElement list \<Rightarrow> real \<Rightarrow> real \<Rightarrow> int
      \<Rightarrow> exn + slide"
  and add_editable_element ::
    "rounding \<Rightarrow> builder \<Rightarrow> (string \<Rightarrow> bool) \<Rightarrow> slide \<Rightarrow> EditableElement \<Rightarrow> real \<Rightarrow> real \<Rightarrow> int
      \<Rightarrow> exn + slide"
where
  "add_editable_elements_to_slide rnd B path_exists s [] scale_x scale_y depth = Inr s"
| "add_editable_elements_to_slide rnd B path_exists s (elem # rest) scale_x scale_y depth =
     (case add_editable_element rnd B path_exists s elem scale_x scale_y depth of
        Inl e \<Rightarrow> Inl e
      | Inr s' \<Rightarrow> add_editable_elements_to_slide rnd B path_exists s' rest scale_x scale_y depth)"
| "add_editable_element rnd B path_exists s elem scale_x scale_y depth =
     (let elem_type = element_type elem;
          b = select_bbox elem depth;
          bl = bbox_list rnd b scale_x scale_y
      in
      if elem_type \<in> set [''text'', ''title''] then
        (if truthy_str (content elem) then
           (let text = strip (str_of (content elem)) in
            if text \<noteq> [] then
              Inr (try_invoke B s (AddTextElement text bl
                     (Some (if elem_type = ''title'' then ''title'' else ''default'')) None))
            else Inr s)
         else Inr s)
      else if elem_type = ''table_cell'' then
        (if truthy_str (content elem) then
           (let text = strip (str_of (content elem)) in
            if text \<noteq> [] then
              Inr (try_invoke B s (AddTextElement text bl None (Some ''center'')))
            else Inr s)
         else Inr s)
      else if elem_type = ''table'' then
        (if children elem \<noteq> [] \<and> truthy_str (inpainted_background_path elem) then
           (let background = str_of (inpainted_background_path elem);
                s1 = (if path_exists background
                      then try_invoke B s (AddImageElement background bl) else s)
            in add_editable_elements_to_slide rnd B path_exists s1 (children elem)
                 scale_x scale_y (depth + 1))
         else
           (if truthy_str (image_path elem) \<and> path_exists (str_of (image_path elem)) then
              Inr (try_invoke B s (AddImageElement (str_of (image_path elem)) bl))
            else invoke B s (AddImagePlaceholder bl)))
      else if elem_type \<in> set [''image'', ''figure'', ''chart''] then
        (case should_use_recursive_render rnd b elem of
           Inl e \<Rightarrow> Inl e
         | Inr recursive \<Rightarrow>
             if recursive then
               (let background = str_of (inpainted_background_path elem);
                    s1 = (if path_exists background
                          then try_invoke B s (AddImageElement background bl) else s)
                in add_editable_elements_to_slide rnd B path_exists s1 (children elem)
                     scale_x scale_y (depth + 1))
             else
               (if truthy_str (image_path elem) \<and> path_exists (str_of (image_path elem)) then
                  Inr (try_invoke B s (AddImageElement (str_of (image_path elem)) bl))
                else invoke B s (AddImagePlaceholder bl)))
      else Inr s)"
  by pat_completeness auto
termination
  by (relation "measure (\<lambda>x. case x of
          Inl (rnd, B, ex, s, es, r) \<Rightarrow> size_list size es
        | Inr (rnd, B, ex, s, e, r) \<Rightarrow> size e)")
     (auto simp: less_Suc_eq_le, (case_tac elem, simp)+)

declare add_editable_element.simps [simp del]


section \<open>Page analysis batch and document assembly\<close>

text \<open>
  \<^verbatim>\<open>EditableImage\<close>, the analysis of one page, as far as the export service reads it.
\<close>

record EditableImage =
  page_image_path :: string
  clean_background :: "string option"
  elements :: "EditableElement list"

text \<open>
  The loop \<^verbatim>\<open>for future in as_completed(futures)\<close>.  \<^verbatim>\<open>futures\<close> holds the outcome of the
  worker of every page, by page index; the second argument is the order in which the pool
  hands the futures over, as page indices.  \<^verbatim>\<open>results[idx] = future.result()\<close> stores a
  value or raises what the worker raised, and the handler logs and re-raises.  An index
  outside the batch cannot come out of the dictionary of futures; the model answers
  \<^verbatim>\<open>IndexError\<close> there, as \<^verbatim>\<open>results[idx]\<close> would.
\<close>

fun collect_results :: "(exn + 'a) list \<Rightarrow> nat list \<Rightarrow> 'a option list \<Rightarrow> exn + 'a option list" where
  "collect_results futures [] results = Inr results"
| "collect_results futures (idx # rest) results =
     (if idx < length futures \<and> idx < length results then
        (case futures ! idx of
           Inl e \<Rightarrow> Inl e
         | Inr r \<Rightarrow> collect_results futures rest (results[idx := Some r]))
      else Inl IndexError)"

text \<open>
  One future per page, \<^verbatim>\<open>results = [None] * len(image_paths)\<close>, then the loop.
  \<^verbatim>\<open>make_image_editable\<close> is the analysis of one page by the service, which is outside the
  sources at hand.
\<close>

definition analyse_batch ::
    "(string \<Rightarrow> exn + 'a) \<Rightarrow> string list \<Rightarrow> nat list \<Rightarrow> exn + 'a option list" where
  "analyse_batch make_image_editable image_paths completion_order =
     collect_results (map make_image_editable image_paths) completion_order
       (replicate (length image_paths) None)"

text \<open>The background picture of a page: the clean background if its file exists, else the
  original render; either call is guarded by a handler.\<close>

definition add_background :: "builder \<Rightarrow> (string \<Rightarrow> bool) \<Rightarrow> slide \<Rightarrow> EditableImage \<Rightarrow> slide" where
  "add_background B path_exists s img =
     (if truthy_str (clean_background img) \<and> path_exists (str_of (clean_background img))
      then try_invoke B s (AddPicture (str_of (clean_background img)))
      else try_invoke B s (AddPicture (page_image_path img)))"

text \<open>
  The loop over the pages.  A slot that still holds \<^verbatim>\<open>None\<close> has no attribute
  \<^verbatim>\<open>clean_background\<close>.  The scale factors of the call are \<^verbatim>\<open>1.0\<close> and the depth is 0.
  The other builder calls of the loop and after it (a blank slide, saving, the bytes) are
  taken to succeed.
\<close>

fun build_slides ::
    "rounding \<Rightarrow> builder \<Rightarrow> (string \<Rightarrow> bool) \<Rightarrow> EditableImage option list
      \<Rightarrow> exn + slide list" where
  "build_slides rnd B path_exists [] = Inr []"
| "build_slides rnd B path_exists (None # rest) = Inl AttributeError"
| "build_slides rnd B path_exists (Some img # rest) =
     (case add_editable_elements_to_slide rnd B path_exists
             (add_background B path_exists [] img) (elements img) 1 1 0 of
        Inl e \<Rightarrow> Inl e
      | Inr s \<Rightarrow>
          (case build_slides rnd B path_exists rest of
             Inl e \<Rightarrow> Inl e
           | Inr slides \<Rightarrow> Inr (s # slides)))"

text \<open>What the call hands back: a file written at a path, or the bytes of the document.  The
  serialisation is the builder's; the document is kept as its slides.\<close>

datatype pptx_output = SavedTo string "slide list" | PptxBytes "slide list"

text \<open>
  \<^verbatim>\<open>create_editable_pptx_with_recursive_analysis\<close>.  \<^verbatim>\<open>service\<close> is the construction of the
  analysis service from its configuration, which may raise, and gives the analysis of one
  page.
\<close>

definition create_editable_pptx_with_recursive_analysis ::
    "rounding \<Rightarrow> builder \<Rightarrow> (string \<Rightarrow> bool)
      \<Rightarrow> (exn + (string \<Rightarrow> exn + EditableImage)) \<Rightarrow> nat list
      \<Rightarrow> string list option \<Rightarrow> string option \<Rightarrow> EditableImage option list option
      \<Rightarrow> exn + pptx_output" where
  "create_editable_pptx_with_recursive_analysis rnd B path_exists service completion_order
       image_paths output_file editable_images =
     (case (case editable_images of
              Some given \<Rightarrow> Inr given
            | None \<Rightarrow>
                (case image_paths of
                   None \<Rightarrow> Inl ValueError
                 | Some paths \<Rightarrow>
                     if paths = [] then Inl ValueError
                     else (case service of
                             Inl e \<Rightarrow> Inl e
                           | Inr make_image_editable \<Rightarrow>
                               analyse_batch make_image_editable paths completion_order))) of
        Inl e \<Rightarrow> Inl e
      | Inr images \<Rightarrow>
          (case build_slides rnd B path_exists images of
             Inl e \<Rightarrow> Inl e
           | Inr slides \<Rightarrow>
               Inr (if truthy_str output_file then SavedTo (str_of output_file) slides
                    else PptxBytes slides)))"

section \<open>Inpaint providers\<close>

type_synonym bbox_tuple = "real \<times> real \<times> real \<times> real"

text \<open>
  The keyword arguments read by \<^verbatim>\<open>DefaultInpaintProvider.inpaint_regions\<close>.  A value that
  the caller passes may be \<^verbatim>\<open>None\<close>, so a value is an option.  Where \<^verbatim>\<open>kwargs.get\<close> has a
  default, the field tells a key that was not passed (the outer \<^verbatim>\<open>None\<close>) from a key
  passed with a value; without a default both read as \<^verbatim>\<open>None\<close>.
\<close>

record 'img default_kwargs =
  kw_expand_pixels :: "int option option"
  kw_merge_bboxes :: "bool option option"
  kw_merge_threshold :: "int option option"
  kw_save_mask_path :: "string option"
  kw_full_page_image :: "'img option"
  kw_crop_box :: "bbox_tuple option"

text \<open>The arguments of \<^verbatim>\<open>remove_regions_by_bboxes\<close>, as the provider passes them on.\<close>

record 'img remove_regions_args =
  arg_image :: 'img
  arg_bboxes :: "bbox_tuple list"
  arg_expand_pixels :: "int option"
  arg_merge_bboxes :: "bool option"
  arg_merge_threshold :: "int option"
  arg_save_mask_path :: "string option"
  arg_full_page_image :: "'img option"
  arg_crop_box :: "bbox_tuple option"

text \<open>The inpainting service is outside the sources at hand: it returns an image or
  \<^verbatim>\<open>None\<close>, or raises.\<close>

type_synonym 'img inpainting_service = "'img remove_regions_args \<Rightarrow> exn + 'img option"

text \<open>The body of the \<^verbatim>\<open>try\<close> block, then the method with its handler.\<close>

definition default_try_block ::
    "'img inpainting_service \<Rightarrow> 'img \<Rightarrow> bbox_tuple list \<Rightarrow> 'img default_kwargs \<Rightarrow> exn + 'img option" where
  "default_try_block inpainting_service input_image bboxes kwargs =
     inpainting_service
       \<lparr>arg_image = input_image,
        arg_bboxes = bboxes,
        arg_expand_pixels = (case kw_expand_pixels kwargs of None \<Rightarrow> Some 10 | Some v \<Rightarrow> v),
        arg_merge_bboxes = (case kw_merge_bboxes kwargs of None \<Rightarrow> Some False | Some v \<Rightarrow> v),
        arg_merge_threshold =
          (case kw_merge_threshold kwargs of None \<Rightarrow> Some 20 | Some v \<Rightarrow> v),
        arg_save_mask_path = kw_save_mask_path kwargs,
        arg_full_page_image = kw_full_page_image kwargs,
        arg_crop_box = kw_crop_box kwargs\<rparr>"

definition default_inpaint_regions ::
    "'img inpainting_service \<Rightarrow> 'img \<Rightarrow> bbox_tuple list \<Rightarrow> string list option
      \<Rightarrow> 'img default_kwargs \<Rightarrow> exn + 'img option" where
  "default_inpaint_regions inpainting_service input_image bboxes types kwargs =
     (case default_try_block inpainting_service input_image bboxes kwargs of
        Inl e \<Rightarrow> Inr None
      | Inr result_img \<Rightarrow> Inr result_img)"

text \<open>
  What \<^verbatim>\<open>ai_service.edit_image\<close> can return: a falsy value, a PIL image, an object with an
  attribute \<^verbatim>\<open>_pil_image\<close>, or an object of another type.
\<close>

datatype 'img edit_result =
    Falsy
  | PilImage 'img
  | WithPilImage "'img option"
  | OtherObject

text \<open>
  The collaborators of the generative provider, all outside the sources at hand: the import
  and call of \<^verbatim>\<open>get_clean_background_prompt\<close>; \<^verbatim>\<open>NamedTemporaryFile(suffix='.png',
  delete=False)\<close>, which picks a name and creates the file; \<^verbatim>\<open>image.save\<close>; and
  \<^verbatim>\<open>edit_image\<close> (prompt, path, aspect ratio, resolution).  The file system is the set of
  paths that exist; the collaborators other than the temporary file leave it alone.  The
  aspect ratio and the resolution are the values of the call if the caller passed the key
  (\<^verbatim>\<open>None\<close> included), else those of the provider.
\<close>

record 'img generative_env =
  get_clean_background_prompt :: "exn + string"
  named_temporary_file :: "string set \<Rightarrow> exn + string"
  image_save :: "'img \<Rightarrow> string \<Rightarrow> exn option"
  edit_image ::
    "string \<Rightarrow> string \<Rightarrow> string option \<Rightarrow> string option \<Rightarrow> exn + 'img edit_result"

record generative_kwargs =
  kw_aspect_ratio :: "string option option"
  kw_resolution :: "string option option"

text \<open>The body of the \<^verbatim>\<open>try\<close> block: its outcome and the file system it leaves.\<close>

definition generative_try_block ::
    "'img generative_env \<Rightarrow> string option \<Rightarrow> string option \<Rightarrow> string set \<Rightarrow> 'img
      \<Rightarrow> (exn + 'img option) \<times> string set" where
  "generative_try_block env aspect_ratio resolution files input_image =
     (case get_clean_background_prompt env of
        Inl e \<Rightarrow> (Inl e, files)
      | Inr edit_instruction \<Rightarrow>
          (case named_temporary_file env files of
             Inl e \<Rightarrow> (Inl e, files)
           | Inr tmp_path \<Rightarrow>
               (let files1 = insert tmp_path files in
                case image_save env input_image tmp_path of
                  Some e \<Rightarrow> (Inl e, files1)
                | None \<Rightarrow>
                    (case edit_image env edit_instruction tmp_path aspect_ratio resolution of
                       Inl e \<Rightarrow> (Inl e, files1)
                     | Inr Falsy \<Rightarrow> (Inr None, files1)
                     | Inr (PilImage pil) \<Rightarrow> (Inr (Some pil), files1)
                     | Inr (WithPilImage attr) \<Rightarrow> (Inr attr, files1)
                     | Inr OtherObject \<Rightarrow> (Inr None, files1)))))"

definition generative_inpaint_regions ::
    "'img generative_env \<Rightarrow> string \<Rightarrow> string \<Rightarrow> string set \<Rightarrow> 'img \<Rightarrow> bbox_tuple list
      \<Rightarrow> string list option \<Rightarrow> generative_kwargs \<Rightarrow> (exn + 'img option) \<times> string set" where
  "generative_inpaint_regions env self_aspect_ratio self_resolution files input_image bboxes types kwargs =
     (let aspect_ratio =
            (case kw_aspect_ratio kwargs of None \<Rightarrow> Some self_aspect_ratio | Some v \<Rightarrow> v);
          resolution =
            (case kw_resolution kwargs of None \<Rightarrow> Some self_resolution | Some v \<Rightarrow> v)
      in case generative_try_block env aspect_ratio resolution files input_image of
           (Inl e, files') \<Rightarrow> (Inr None, files')
         | (Inr clean_bg_image, files') \<Rightarrow> (Inr clean_bg_image, files'))"

section \<open>Auxiliary definitions\<close>



fun call_bbox :: "call \<Rightarrow> int list" where
  "call_bbox (AddTextElement text bl level align) = bl"
| "call_bbox (AddImageElement path bl) = bl"
| "call_bbox (AddImagePlaceholder bl) = bl"
| "call_bbox (AddPicture path) = []"

text \<open>
  The rectangles that the composition of an element at a depth may place: the scaled
  rectangle of its selected frame, and those of its children one level deeper.
\<close>

fun placed_boxes :: "rounding \<Rightarrow> real \<Rightarrow> real \<Rightarrow> int \<Rightarrow> EditableElement \<Rightarrow> int list set" where
  "placed_boxes rnd scale_x scale_y depth (EditableElement i t c b g p q ch) =
     insert (bbox_list rnd (select_bbox (EditableElement i t c b g p q ch) depth) scale_x scale_y)
       (\<Union>child \<in> set ch. placed_boxes rnd scale_x scale_y (depth + 1) child)"

text \<open>A slide grown from another by calls whose rectangles all come from a given set.\<close>

definition placed_within :: "int list set \<Rightarrow> slide \<Rightarrow> slide \<Rightarrow> bool" where
  "placed_within boxes s s' = (\<exists>new. s' = s @ new \<and> (\<forall>c \<in> set new. call_bbox c \<in> boxes))"

text \<open>The scaling rule in the words of the spec: the floor of every product, the product
  being the one of doubles.\<close>

definition spec_floor_scaled :: "rounding \<Rightarrow> BBox \<Rightarrow> real \<Rightarrow> real \<Rightarrow> int list" where
  "spec_floor_scaled rnd b scale_x scale_y =
     [\<lfloor>rounded rnd (x0 b * scale_x)\<rfloor>, \<lfloor>rounded rnd (y0 b * scale_y)\<rfloor>,
      \<lfloor>rounded rnd (x1 b * scale_x)\<rfloor>, \<lfloor>rounded rnd (y1 b * scale_y)\<rfloor>]"

text \<open>The dominant-child rule in the words of the spec: no child above 0.85 times the area
  of the parent, the product being the one of doubles.\<close>

definition spec_recursion_enabled :: "rounding \<Rightarrow> BBox \<Rightarrow> EditableElement \<Rightarrow> bool" where
  "spec_recursion_enabled rnd b elem =
     (children elem \<noteq> [] \<and> truthy_str (inpainted_background_path elem)
      \<and> list_all (\<lambda>child. \<not> area rnd (child_bbox child) > rounded rnd (rounded rnd (85 / 100) * area rnd b))
            (children elem))"

text \<open>The flattened branch in the words of the spec: the image at \<^verbatim>\<open>image_path\<close> if that
  file exists, otherwise a placeholder.\<close>

definition spec_flatten ::
    "builder \<Rightarrow> (string \<Rightarrow> bool) \<Rightarrow> slide \<Rightarrow> EditableElement \<Rightarrow> int list \<Rightarrow> exn + slide" where
  "spec_flatten B path_exists s elem placed_bbox =
     (if truthy_str (image_path elem) \<and> path_exists (str_of (image_path elem))
      then Inr (try_invoke B s (AddImageElement (str_of (image_path elem)) placed_bbox))
      else invoke B s (AddImagePlaceholder placed_bbox))"

subsection \<open>Sample inputs\<close>

text \<open>
  The rounding for the sample inputs, which leaves every number as it is.  The sample runs
  that stand against a claim work on numbers whose sums, products and quotients are doubles,
  which no rounding changes.
\<close>

lift_definition exact :: rounding is "\<lambda>x. x"
  by (simp add: mono_def)

definition box :: "real \<Rightarrow> real \<Rightarrow> real \<Rightarrow> real \<Rightarrow> BBox" where
  "box a b c d = \<lparr>x0 = a, y0 = b, x1 = c, y1 = d\<rparr>"

text \<open>A builder on which no call raises, and a file system without files.\<close>

definition quiet_builder :: builder where
  "quiet_builder s c = None"

definition no_files :: "string \<Rightarrow> bool" where
  "no_files p = False"

text \<open>A text found in a crop, with both frames, and one with the local frame only.\<close>

definition sample_text :: EditableElement where
  "sample_text = EditableElement ''t1'' ''text'' (Some '' hi '') (box 10 20 110 60)
     (Some (box 510 320 610 360)) None None []"

definition sample_plain :: EditableElement where
  "sample_plain = EditableElement ''t2'' ''title'' (Some ''Top'') (box 5 6 7 8) None None None []"

text \<open>A rectangle left of the origin, and a text placed there.\<close>

definition negative_box :: BBox where
  "negative_box = box (- (1 / 2)) 0 (3 / 2) 1"

definition left_text :: EditableElement where
  "left_text = EditableElement ''t4'' ''text'' (Some ''x'') negative_box None None None []"

text \<open>More sample inputs: a file system where every path exists, a text child of a given
  area, a figure with one child, and a table with one cell.\<close>

definition all_files :: "string \<Rightarrow> bool" where
  "all_files p = True"

definition child_of_area :: "real \<Rightarrow> EditableElement" where
  "child_of_area a = EditableElement ''c'' ''text'' (Some ''x'') (box 0 0 a 1) (Some (box 0 0 a 1))
     None None []"

definition figure_with :: "BBox \<Rightarrow> EditableElement \<Rightarrow> EditableElement" where
  "figure_with b child = EditableElement ''f1'' ''figure'' None b None (Some ''fig.png'')
     (Some ''fig_bg.png'') [child]"

definition only_table_png :: "string \<Rightarrow> bool" where
  "only_table_png p = (p = ''table.png'')"

definition sample_cell :: EditableElement where
  "sample_cell = EditableElement ''c1'' ''table_cell'' (Some ''A'') (box 0 0 50 20)
     (Some (box 10 10 60 30)) None None []"

definition sample_table :: "string option \<Rightarrow> EditableElement" where
  "sample_table background = EditableElement ''tb'' ''table'' None (box 0 0 200 100) None
     (Some ''table.png'') background [sample_cell]"




text \<open>Sample analyses: a page without elements, an analysis that raises on the second of
  three pages, and one that never raises.\<close>

definition sample_page :: "string \<Rightarrow> EditableImage" where
  "sample_page p = \<lparr>page_image_path = p, clean_background = None, elements = []\<rparr>"

definition sample_analysis :: "string \<Rightarrow> exn + EditableImage" where
  "sample_analysis p =
     (if p = ''p2.png'' then Inl (AnalysisError ''p2'') else Inr (sample_page p))"

definition healthy_analysis :: "string \<Rightarrow> exn + EditableImage" where
  "healthy_analysis p = Inr (sample_page p)"

definition three_pages :: "string list" where
  "three_pages = [''p1.png'', ''p2.png'', ''p3.png'']"

text \<open>Sample collaborators of the inpaint providers, on images named by strings: an
  inpainting service that raises and one that answers, calls without keyword arguments, and
  an environment whose image editor gives a fixed outcome, and one where no temporary file
  can be created.\<close>

definition failing_service :: "string inpainting_service" where
  "failing_service args = Inl (ServiceError ''inpainting'')"

definition working_service :: "string inpainting_service" where
  "working_service args = Inr (Some (arg_image args @ ''.clean''))"

definition no_default_kwargs :: "string default_kwargs" where
  "no_default_kwargs = \<lparr>kw_expand_pixels = None, kw_merge_bboxes = None,
     kw_merge_threshold = None, kw_save_mask_path = None, kw_full_page_image = None,
     kw_crop_box = None\<rparr>"

definition no_generative_kwargs :: generative_kwargs where
  "no_generative_kwargs = \<lparr>kw_aspect_ratio = None, kw_resolution = None\<rparr>"

definition fixed_temporary_file :: "string set \<Rightarrow> exn + string" where
  "fixed_temporary_file files = Inr ''/tmp/tmp0.png''"

definition saving :: "string \<Rightarrow> string \<Rightarrow> exn option" where
  "saving img path = None"

definition answering ::
    "(exn + string edit_result) \<Rightarrow> string \<Rightarrow> string \<Rightarrow> string option \<Rightarrow> string option
      \<Rightarrow> exn + string edit_result" where
  "answering outcome prompt path aspect_ratio resolution = outcome"

definition sample_env :: "(exn + string edit_result) \<Rightarrow> string generative_env" where
  "sample_env outcome =
     \<lparr>get_clean_background_prompt = Inr ''remove text and icons'',
      named_temporary_file = fixed_temporary_file,
      image_save = saving,
      edit_image = answering outcome\<rparr>"

definition failing_temporary_file :: "string set \<Rightarrow> exn + string" where
  "failing_temporary_file files = Inl (ServiceError ''no space left'')"

definition full_disk_env :: "string generative_env" where
  "full_disk_env =
     \<lparr>get_clean_background_prompt = Inr ''remove text and icons'',
      named_temporary_file = failing_temporary_file,
      image_save = saving,
      edit_image = answering (Inr Falsy)\<rparr>"

section \<open>Properties\<close>

subsection \<open>Builder calls\<close>

lemma try_invoke_cases: "try_invoke B s c = s \<or> try_invoke B s c = s @ [c]"
  by (simp add: try_invoke_def invoke_def split: option.split)

lemma invoke_Inr: "invoke B s c = Inr s' \<Longrightarrow> s' = s @ [c]"
  by (auto simp: invoke_def split: option.splits)


lemma try_invoke_quiet [simp]: "try_invoke quiet_builder s c = s @ [c]"
  by (simp add: try_invoke_def invoke_def quiet_builder_def)

lemma invoke_quiet [simp]: "invoke quiet_builder s c = Inr (s @ [c])"
  by (simp add: invoke_def quiet_builder_def)

lemma strip_hi: "strip '' hi '' = ''hi''"
  by (simp add: strip_def is_space_def)

lemma strip_Top: "strip ''Top'' = ''Top''"
  by (simp add: strip_def is_space_def)

lemma strip_x: "strip ''x'' = ''x''"
  by (simp add: strip_def is_space_def)

lemma strip_A: "strip ''A'' = ''A''"
  by (simp add: strip_def is_space_def)

subsection \<open>Rounding\<close>

lemma rounded_mono: "x \<le> y \<Longrightarrow> rounded rnd x \<le> rounded rnd y"
  using rounded [of rnd] by (simp add: mono_def)

lemma rounded_dyadic:
  "\<bar>n\<bar> \<le> 2 ^ 53 \<Longrightarrow> k \<le> 1022 \<Longrightarrow> rounded rnd (of_int n / 2 ^ k) = of_int n / 2 ^ k"
  using rounded [of rnd] by simp

lemma rounded_int: "\<bar>n\<bar> \<le> 2 ^ 53 \<Longrightarrow> rounded rnd (of_int n) = of_int n"
  using rounded_dyadic [of n 0 rnd] by simp

lemma rounded_0 [simp]: "rounded rnd 0 = 0"
  using rounded_int [of 0 rnd] by simp

lemma rounded_1 [simp]: "rounded rnd 1 = 1"
  using rounded_int [of 1 rnd] by simp

lemma rounded_numeral: "numeral w \<le> (2::int) ^ 53 \<Longrightarrow> rounded rnd (numeral w) = numeral w"
  using rounded_int [of "numeral w" rnd] by simp

lemma rounded_exact [simp]: "rounded exact x = x"
  by (simp add: exact.rep_eq)

lemma threshold_nonneg: "0 \<le> max_child_coverage_ratio rnd"
  using rounded_mono [of 0 "85 / 100" rnd] by (simp add: max_child_coverage_ratio_def)

subsection \<open>The branches of the engine\<close>

lemma text_branch:
  assumes "element_type elem \<in> set [''text'', ''title'']"
  shows "add_editable_element rnd B ex s elem sx sy depth =
     Inr (if truthy_str (content elem) \<and> strip (str_of (content elem)) \<noteq> []
          then try_invoke B s (AddTextElement (strip (str_of (content elem)))
                 (bbox_list rnd (select_bbox elem depth) sx sy)
                 (Some (if element_type elem = ''title'' then ''title'' else ''default'')) None)
          else s)"
proof -
  have ty: "(element_type elem \<in> set [''text'', ''title'']) = True"
    using assms by simp
  show ?thesis
    by (simp only: add_editable_element.simps [of rnd B ex s elem] Let_def ty if_True)
      simp
qed

lemma cell_branch:
  assumes "element_type elem = ''table_cell''"
  shows "add_editable_element rnd B ex s elem sx sy depth =
     Inr (if truthy_str (content elem) \<and> strip (str_of (content elem)) \<noteq> []
          then try_invoke B s (AddTextElement (strip (str_of (content elem)))
                 (bbox_list rnd (select_bbox elem depth) sx sy) None (Some ''center''))
          else s)"
proof -
  have ty: "(element_type elem \<in> set [''text'', ''title'']) = False"
    "(element_type elem = ''table_cell'') = True"
    using assms by auto
  show ?thesis
    by (simp only: add_editable_element.simps [of rnd B ex s elem] Let_def ty if_True if_False)
      simp
qed

lemma table_flattened:
  assumes "element_type elem = ''table''"
    and "\<not> (children elem \<noteq> [] \<and> truthy_str (inpainted_background_path elem))"
  shows "add_editable_element rnd B ex s elem sx sy depth =
           spec_flatten B ex s elem (bbox_list rnd (select_bbox elem depth) sx sy)"
proof -
  have ty: "(element_type elem \<in> set [''text'', ''title'']) = False"
    "(element_type elem = ''table_cell'') = False" "(element_type elem = ''table'') = True"
    using assms(1) by auto
  have c: "(children elem \<noteq> [] \<and> truthy_str (inpainted_background_path elem)) = False"
    using assms(2) by simp
  show ?thesis
    by (simp only: add_editable_element.simps [of rnd B ex s elem] Let_def ty c if_False if_True
        spec_flatten_def)
qed

lemma table_recursive:
  assumes "element_type elem = ''table''"
    and "children elem \<noteq> []" and "truthy_str (inpainted_background_path elem)"
  shows "add_editable_element rnd B ex s elem sx sy depth =
           add_editable_elements_to_slide rnd B ex
             (if ex (str_of (inpainted_background_path elem))
              then try_invoke B s (AddImageElement (str_of (inpainted_background_path elem))
                     (bbox_list rnd (select_bbox elem depth) sx sy))
              else s)
             (children elem) sx sy (depth + 1)"
proof -
  have ty: "(element_type elem \<in> set [''text'', ''title'']) = False"
    "(element_type elem = ''table_cell'') = False" "(element_type elem = ''table'') = True"
    using assms(1) by auto
  have c: "(children elem \<noteq> [] \<and> truthy_str (inpainted_background_path elem)) = True"
    using assms by simp
  show ?thesis
    by (simp only: add_editable_element.simps [of rnd B ex s elem] Let_def ty c if_False if_True)
qed

lemma recursive_branch:
  assumes "should_use_recursive_render rnd (select_bbox elem depth) elem = Inr True"
    and "element_type elem \<in> set [''image'', ''figure'', ''chart'']"
  shows "add_editable_element rnd B ex s elem sx sy depth =
               add_editable_elements_to_slide rnd B ex
                 (if ex (str_of (inpainted_background_path elem))
                  then try_invoke B s (AddImageElement (str_of (inpainted_background_path elem))
                         (bbox_list rnd (select_bbox elem depth) sx sy))
                  else s)
                 (children elem) sx sy (depth + 1)"
proof -
  have ty: "element_type elem \<notin> set [''text'', ''title'']" "element_type elem \<noteq> ''table_cell''"
    "element_type elem \<noteq> ''table''"
    using assms(2) by auto
  show ?thesis
    by (simp only: add_editable_element.simps [of rnd B ex s elem] Let_def ty assms if_False
        if_True sum.case)
qed

lemma flattened_branch:
  assumes "should_use_recursive_render rnd (select_bbox elem depth) elem = Inr False"
    and "element_type elem \<in> set [''image'', ''figure'', ''chart'']"
  shows "add_editable_element rnd B ex s elem sx sy depth =
           spec_flatten B ex s elem (bbox_list rnd (select_bbox elem depth) sx sy)"
proof -
  have ty: "(element_type elem \<in> set [''text'', ''title'']) = False"
    "(element_type elem = ''table_cell'') = False" "(element_type elem = ''table'') = False"
    "(element_type elem \<in> set [''image'', ''figure'', ''chart'']) = True"
    using assms(2) by auto
  show ?thesis
    by (simp only: add_editable_element.simps [of rnd B ex s elem] Let_def ty assms(1) if_False
        if_True sum.case spec_flatten_def)
qed

lemma other_branch:
  assumes "element_type elem \<notin> set [''text'', ''title'', ''table_cell'', ''table'', ''image'',
      ''figure'', ''chart'']"
  shows "add_editable_element rnd B ex s elem sx sy depth = Inr s"
proof -
  have ty: "(element_type elem \<in> set [''text'', ''title'']) = False"
    "(element_type elem = ''table_cell'') = False" "(element_type elem = ''table'') = False"
    "(element_type elem \<in> set [''image'', ''figure'', ''chart'']) = False"
    using assms by auto
  show ?thesis
    by (simp only: add_editable_element.simps [of rnd B ex s elem] Let_def ty if_False)
qed

lemma spec_flatten_cases:
  "spec_flatten B ex s elem bl = Inr s' \<Longrightarrow>
     s' = s \<or> s' = s @ [AddImageElement (str_of (image_path elem)) bl]
     \<or> s' = s @ [AddImagePlaceholder bl]"
  using try_invoke_cases [of B s "AddImageElement (str_of (image_path elem)) bl"]
  by (auto simp: spec_flatten_def split: if_splits dest: invoke_Inr)


lemma size_children: "size_list size (children elem) < size elem"
  by (cases elem) simp

subsection \<open>The dominant-child check\<close>

lemma coverage_ratio_total: "\<exists>r. coverage_ratio rnd a pa = Inr r"
  by (simp add: coverage_ratio_def truediv_def)

lemma coverage_ratio_zero: "pa \<le> 0 \<Longrightarrow> coverage_ratio rnd a pa = Inr 0"
  by (simp add: coverage_ratio_def)

lemma coverage_ratio_pos: "0 < pa \<Longrightarrow> coverage_ratio rnd a pa = Inr (rounded rnd (a / pa))"
  by (simp add: coverage_ratio_def truediv_def)

lemma has_dominant_child_pos:
  "0 < pa \<Longrightarrow>
   has_dominant_child rnd pa cs =
     Inr (\<not> list_all (\<lambda>child. \<not> rounded rnd (85 / 100)
                                  < rounded rnd (area rnd (child_bbox child) / pa)) cs)"
  by (induction cs) (simp_all add: coverage_ratio_pos max_child_coverage_ratio_def)

lemma has_dominant_child_nonpos: "pa \<le> 0 \<Longrightarrow> has_dominant_child rnd pa cs = Inr False"
  using threshold_nonneg [of rnd]
  by (induction cs) (simp_all add: coverage_ratio_zero not_less)

lemma should_use_recursive_render_eq:
  "should_use_recursive_render rnd b elem =
     Inr (children elem \<noteq> [] \<and> truthy_str (inpainted_background_path elem)
          \<and> (0 < area rnd b \<longrightarrow>
               list_all (\<lambda>child. \<not> rounded rnd (85 / 100)
                                   < rounded rnd (area rnd (child_bbox child) / area rnd b))
                 (children elem)))"
proof (cases "0 < area rnd b")
  case True
  then show ?thesis
    using has_dominant_child_pos [of "area rnd b" rnd "children elem"]
    by (simp add: should_use_recursive_render_def area_def)
next
  case False
  then show ?thesis
    using has_dominant_child_nonpos [of "area rnd b" rnd "children elem"]
    by (simp add: should_use_recursive_render_def area_def)
qed

subsection \<open>Coordinate frame\<close>






lemma sample_plain_depth1:
  "add_editable_element exact quiet_builder no_files [] sample_plain 1 1 1 =
     Inr [AddTextElement ''Top'' [5, 6, 7, 8] (Some ''title'') None]"
  by (simp add: add_editable_element.simps sample_plain_def select_bbox_def bbox_list_def
      py_int_def box_def truthy_str_def str_of_def strip_Top)



subsection \<open>Scaling\<close>

lemma py_int_nonneg: "0 \<le> p \<Longrightarrow> py_int p = \<lfloor>p\<rfloor>"
  by (simp add: py_int_def)

lemma py_int_neg: "p < 0 \<Longrightarrow> py_int p = \<lceil>p\<rceil>"
  by (simp add: py_int_def)

lemma placed_boxes_eq:
  "placed_boxes rnd sx sy depth elem =
     insert (bbox_list rnd (select_bbox elem depth) sx sy)
       (\<Union>child \<in> set (children elem). placed_boxes rnd sx sy (depth + 1) child)"
  by (cases elem) simp

lemma own_box: "bbox_list rnd (select_bbox elem depth) sx sy \<in> placed_boxes rnd sx sy depth elem"
  by (subst placed_boxes_eq) simp

lemma children_boxes:
  "(\<Union>child \<in> set (children elem). placed_boxes rnd sx sy (depth + 1) child)
     \<subseteq> placed_boxes rnd sx sy depth elem"
  by (subst (2) placed_boxes_eq) blast

lemma placed_boxes_scaled:
  "bl \<in> placed_boxes rnd sx sy depth elem \<Longrightarrow>
     \<exists>e d. bl = bbox_list rnd (select_bbox e d) sx sy"
  by (induction rnd sx sy depth elem rule: placed_boxes.induct) auto

lemma placed_within_refl: "placed_within boxes s s"
  by (simp add: placed_within_def)

lemma placed_within_call: "call_bbox c \<in> boxes \<Longrightarrow> placed_within boxes s (s @ [c])"
  by (simp add: placed_within_def)

lemma placed_within_trans:
  "placed_within boxes s s1 \<Longrightarrow> placed_within boxes s1 s2 \<Longrightarrow> placed_within boxes s s2"
  by (auto simp: placed_within_def)

lemma placed_within_mono:
  "placed_within boxes s s' \<Longrightarrow> boxes \<subseteq> larger \<Longrightarrow> placed_within larger s s'"
  by (auto simp: placed_within_def)

lemma placed_within_try:
  "call_bbox c \<in> boxes \<Longrightarrow> placed_within boxes s (try_invoke B s c)"
  using try_invoke_cases [of B s c] by (auto intro: placed_within_refl placed_within_call)

lemma placed_within_flatten:
  assumes "bl \<in> boxes" and "spec_flatten B ex s elem bl = Inr s'"
  shows "placed_within boxes s s'"
  using spec_flatten_cases [OF assms(2)] assms(1)
  by (auto intro: placed_within_refl placed_within_call)

lemma element_placed:
  assumes below: "\<And>s1 s2.
      add_editable_elements_to_slide rnd B ex s1 (children elem) sx sy (depth + 1) = Inr s2 \<Longrightarrow>
      placed_within (\<Union>child \<in> set (children elem). placed_boxes rnd sx sy (depth + 1) child)
        s1 s2"
    and run: "add_editable_element rnd B ex s elem sx sy depth = Inr s'"
  shows "placed_within (placed_boxes rnd sx sy depth elem) s s'"
proof -
  let ?bl = "bbox_list rnd (select_bbox elem depth) sx sy"
  let ?boxes = "placed_boxes rnd sx sy depth elem"
  let ?bg = "str_of (inpainted_background_path elem)"
  let ?s1 = "if ex ?bg then try_invoke B s (AddImageElement ?bg ?bl) else s"
  have own: "?bl \<in> ?boxes"
    by (rule own_box)
  have first: "placed_within ?boxes s ?s1"
    using own by (simp add: placed_within_try placed_within_refl)
  have deeper: "placed_within ?boxes s s'"
    if "add_editable_elements_to_slide rnd B ex ?s1 (children elem) sx sy (depth + 1) = Inr s'"
    using placed_within_trans [OF first placed_within_mono [OF below [OF that] children_boxes]] .
  consider (textual) "element_type elem \<in> set [''text'', ''title'']"
    | (a_cell) "element_type elem = ''table_cell''"
    | (a_table) "element_type elem = ''table''"
    | (pictorial) "element_type elem \<in> set [''image'', ''figure'', ''chart'']"
    | (unknown) "element_type elem \<notin> set [''text'', ''title'', ''table_cell'', ''table'',
        ''image'', ''figure'', ''chart'']"
    by auto
  then show ?thesis
  proof cases
    case textual
    have "s' = (if truthy_str (content elem) \<and> strip (str_of (content elem)) \<noteq> []
          then try_invoke B s (AddTextElement (strip (str_of (content elem))) ?bl
                 (Some (if element_type elem = ''title'' then ''title'' else ''default'')) None)
          else s)"
      using run text_branch [OF textual, of rnd B ex s sx sy depth] by simp
    then show ?thesis
      using own by (simp add: placed_within_try placed_within_refl)
  next
    case a_cell
    have "s' = (if truthy_str (content elem) \<and> strip (str_of (content elem)) \<noteq> []
          then try_invoke B s (AddTextElement (strip (str_of (content elem))) ?bl None
                 (Some ''center''))
          else s)"
      using run cell_branch [OF a_cell, of rnd B ex s sx sy depth] by simp
    then show ?thesis
      using own by (simp add: placed_within_try placed_within_refl)
  next
    case a_table
    show ?thesis
    proof (cases "children elem \<noteq> [] \<and> truthy_str (inpainted_background_path elem)")
      case True
      then have "add_editable_elements_to_slide rnd B ex ?s1 (children elem) sx sy (depth + 1)
          = Inr s'"
        using run a_table by (simp add: table_recursive)
      then show ?thesis by (rule deeper)
    next
      case False
      then have "spec_flatten B ex s elem ?bl = Inr s'"
        using run a_table by (simp add: table_flattened)
      then show ?thesis by (rule placed_within_flatten [OF own])
    qed
  next
    case pictorial
    obtain r where r: "should_use_recursive_render rnd (select_bbox elem depth) elem = Inr r"
      using should_use_recursive_render_eq by blast
    show ?thesis
    proof (cases r)
      case True
      then have "add_editable_elements_to_slide rnd B ex ?s1 (children elem) sx sy (depth + 1)
          = Inr s'"
        using run pictorial r by (simp add: recursive_branch)
      then show ?thesis by (rule deeper)
    next
      case False
      then have "spec_flatten B ex s elem ?bl = Inr s'"
        using run pictorial r by (simp add: flattened_branch)
      then show ?thesis by (rule placed_within_flatten [OF own])
    qed
  next
    case unknown
    then have "s' = s"
      using run other_branch [of elem rnd B ex s sx sy depth] by simp
    then show ?thesis
      by (simp add: placed_within_refl)
  qed
qed

lemma elements_placed:
  "add_editable_elements_to_slide rnd B ex s elems sx sy depth = Inr s' \<Longrightarrow>
     placed_within (\<Union>elem \<in> set elems. placed_boxes rnd sx sy depth elem) s s'"
proof (induction elems arbitrary: s s' depth
    rule: measure_induct_rule [where f = "size_list size"])
  case (less elems)
  show ?case
  proof (cases elems)
    case Nil
    then show ?thesis
      using less.prems by (simp add: placed_within_refl)
  next
    case (Cons elem rest)
    obtain s1 where s1: "add_editable_element rnd B ex s elem sx sy depth = Inr s1"
      and s2: "add_editable_elements_to_slide rnd B ex s1 rest sx sy depth = Inr s'"
      using less.prems Cons by (auto split: sum.splits)
    have "size_list size (children elem) < size_list size elems"
      using size_children [of elem] Cons by simp
    then have "placed_within (placed_boxes rnd sx sy depth elem) s s1"
      using less.IH s1 by (intro element_placed) blast+
    moreover have "size_list size rest < size_list size elems"
      using Cons by simp
    then have "placed_within (\<Union>elem \<in> set rest. placed_boxes rnd sx sy depth elem) s1 s'"
      using less.IH s2 by blast
    ultimately show ?thesis
      using Cons
      by (auto intro!: placed_within_trans [of _ s s1 s'] elim: placed_within_mono)
  qed
qed

lemma negative_box_any_rounding: "bbox_list rnd negative_box 1 1 = [0, 0, 1, 1]"
proof -
  have r: "rounded rnd (- (1 / 2)) = - (1 / 2)" "rounded rnd (3 / 2) = 3 / 2"
    using rounded_dyadic [of "- 1" 1 rnd] rounded_dyadic [of 3 1 rnd] by simp_all
  have f: "\<lceil>- (1 / 2) :: real\<rceil> = 0" "\<lfloor>3 / 2 :: real\<rfloor> = 1"
    by linarith+
  show ?thesis
    by (simp add: bbox_list_def negative_box_def box_def py_int_def r f)
qed

lemma negative_box_floor_any_rounding: "spec_floor_scaled rnd negative_box 1 1 = [- 1, 0, 1, 1]"
proof -
  have r: "rounded rnd (- (1 / 2)) = - (1 / 2)" "rounded rnd (3 / 2) = 3 / 2"
    using rounded_dyadic [of "- 1" 1 rnd] rounded_dyadic [of 3 1 rnd] by simp_all
  have f: "\<lfloor>- (1 / 2) :: real\<rfloor> = - 1" "\<lfloor>3 / 2 :: real\<rfloor> = 1"
    by linarith+
  show ?thesis
    by (simp add: spec_floor_scaled_def negative_box_def box_def r f)
qed

lemma left_text_placed:
  "add_editable_element rnd quiet_builder no_files [] left_text 1 1 0 =
     Inr [AddTextElement ''x'' [0, 0, 1, 1] (Some ''default'') None]"
  by (simp add: text_branch left_text_def select_bbox_def negative_box_any_rounding
      truthy_str_def str_of_def strip_x)

lemma sample_text_scaled:
  "add_editable_elements_to_slide exact quiet_builder no_files [] [sample_text] (3 / 2) (1 / 8) 0 =
     Inr [AddTextElement ''hi'' [15, 2, 165, 7] (Some ''default'') None]"
proof -
  have "\<lfloor>5 / 2 :: real\<rfloor> = 2" "\<lfloor>15 / 2 :: real\<rfloor> = 7"
    by linarith+
  then show ?thesis
    by (simp add: text_branch sample_text_def select_bbox_def bbox_list_def py_int_def box_def
        truthy_str_def str_of_def strip_hi)
qed

text \<open>
  C5, as the code has it.  Every builder call that the composition of a list of elements
  adds to the slide carries a rectangle of the tree: the scaled rectangle of the selected
  frame of an element.  Each of the four coordinates of such a rectangle is
  \<^verbatim>\<open>int(coord * scale)\<close> with the scale of its axis, each on its own: the product of doubles
  with its fraction cut off towards zero, which is the floor of a product that is not
  negative and the ceiling of a negative one.  Where all four products are non-negative the
  placed rectangle is the one of floors.
\<close>

theorem scaled_coordinates_truncate:
  "(add_editable_elements_to_slide rnd B ex s elems sx sy depth = Inr s' \<longrightarrow>
      (\<exists>new. s' = s @ new
         \<and> (\<forall>c \<in> set new.
               call_bbox c \<in> (\<Union>elem \<in> set elems. placed_boxes rnd sx sy depth elem))))
   \<and> (bl \<in> placed_boxes rnd sx sy depth elem \<longrightarrow>
        (\<exists>e d. bl = bbox_list rnd (select_bbox e d) sx sy))
   \<and> bbox_list rnd b sx sy =
       map (\<lambda>p. py_int (rounded rnd p)) [x0 b * sx, y0 b * sy, x1 b * sx, y1 b * sy]
   \<and> (0 \<le> q \<longrightarrow> py_int q = \<lfloor>q\<rfloor>)
   \<and> (q < 0 \<longrightarrow> py_int q = \<lceil>q\<rceil>)
   \<and> (0 \<le> rounded rnd (x0 b * sx) \<and> 0 \<le> rounded rnd (y0 b * sy)
        \<and> 0 \<le> rounded rnd (x1 b * sx) \<and> 0 \<le> rounded rnd (y1 b * sy) \<longrightarrow>
        bbox_list rnd b sx sy = spec_floor_scaled rnd b sx sy)"
proof -
  have "\<exists>new. s' = s @ new
         \<and> (\<forall>c \<in> set new.
               call_bbox c \<in> (\<Union>elem \<in> set elems. placed_boxes rnd sx sy depth elem))"
    if "add_editable_elements_to_slide rnd B ex s elems sx sy depth = Inr s'"
    using elements_placed [OF that] by (simp add: placed_within_def)
  moreover have "bbox_list rnd b sx sy =
       map (\<lambda>p. py_int (rounded rnd p)) [x0 b * sx, y0 b * sy, x1 b * sx, y1 b * sy]"
    by (simp add: bbox_list_def)
  moreover have "bbox_list rnd b sx sy = spec_floor_scaled rnd b sx sy"
    if "0 \<le> rounded rnd (x0 b * sx) \<and> 0 \<le> rounded rnd (y0 b * sy)
        \<and> 0 \<le> rounded rnd (x1 b * sx) \<and> 0 \<le> rounded rnd (y1 b * sy)"
    using that by (simp add: bbox_list_def spec_floor_scaled_def py_int_nonneg)
  ultimately show ?thesis
    using placed_boxes_scaled [of bl rnd sx sy depth elem] py_int_nonneg [of q] py_int_neg [of q]
    by blast
qed

theorem scaled_coordinates_truncate_witness:
  "add_editable_elements_to_slide exact quiet_builder no_files [] [sample_text] (3 / 2) (1 / 8) 0 =
     Inr [AddTextElement ''hi'' [15, 2, 165, 7] (Some ''default'') None]
   \<and> [15, 2, 165, 7] \<in> placed_boxes exact (3 / 2) (1 / 8) 0 sample_text
   \<and> (0::real) \<le> 5 / 2 \<and> py_int (5 / 2) = 2
   \<and> - (5 / 2) < (0::real) \<and> py_int (- (5 / 2)) = - 2
   \<and> bbox_list exact (box 10 20 110 60) (3 / 2) (1 / 8) = [15, 2, 165, 7]
   \<and> spec_floor_scaled exact (box 10 20 110 60) (3 / 2) (1 / 8) = [15, 2, 165, 7]
   \<and> (0::real) \<le> rounded exact (x0 (box 10 20 110 60) * (3 / 2))
   \<and> (0::real) \<le> rounded exact (y0 (box 10 20 110 60) * (1 / 8))
   \<and> (0::real) \<le> rounded exact (x1 (box 10 20 110 60) * (3 / 2))
   \<and> (0::real) \<le> rounded exact (y1 (box 10 20 110 60) * (1 / 8))"
proof -
  have f: "\<lfloor>5 / 2 :: real\<rfloor> = 2" "\<lceil>- (5 / 2) :: real\<rceil> = - 2" "\<lfloor>15 / 2 :: real\<rfloor> = 7"
    by linarith+
  have b: "bbox_list exact (box 10 20 110 60) (3 / 2) (1 / 8) = [15, 2, 165, 7]"
    by (simp add: bbox_list_def py_int_def box_def f)
  have m: "[15, 2, 165, 7] \<in> placed_boxes exact (3 / 2) (1 / 8) 0 sample_text"
    using own_box [of exact sample_text 0 "3 / 2" "1 / 8"]
    by (simp add: sample_text_def select_bbox_def b)
  from scaled_coordinates_truncate [of exact quiet_builder no_files "[]" "[sample_text]"
      "3 / 2" "1 / 8" 0 "[AddTextElement ''hi'' [15, 2, 165, 7] (Some ''default'') None]"
      "[15, 2, 165, 7]" sample_text "box 10 20 110 60" "5 / 2"]
    scaled_coordinates_truncate [of exact quiet_builder no_files "[]" "[sample_text]"
      "3 / 2" "1 / 8" 0 "[AddTextElement ''hi'' [15, 2, 165, 7] (Some ''default'') None]"
      "[15, 2, 165, 7]" sample_text "box 10 20 110 60" "- (5 / 2)"]
    sample_text_scaled m b
  show ?thesis
    by (simp add: box_def spec_floor_scaled_def f)
qed

theorem negative_product_counterexample:
  "add_editable_element exact quiet_builder no_files [] left_text 1 1 0 =
     Inr [AddTextElement ''x'' [0, 0, 1, 1] (Some ''default'') None]
   \<and> select_bbox left_text 0 = negative_box
   \<and> bbox_list exact negative_box 1 1 = [0, 0, 1, 1]
   \<and> spec_floor_scaled exact negative_box 1 1 = [- 1, 0, 1, 1]
   \<and> bbox_list exact negative_box 1 1 \<noteq> spec_floor_scaled exact negative_box 1 1"
  by (simp add: left_text_placed negative_box_any_rounding negative_box_floor_any_rounding)
    (simp add: left_text_def select_bbox_def)

subsection \<open>Dominant child and table branches\<close>

lemma py_int_of_int [simp]: "py_int (of_int n) = n"
  by (simp add: py_int_def)

lemma bbox_list_integers:
  assumes "\<bar>a\<bar> \<le> 2 ^ 53" "\<bar>b\<bar> \<le> 2 ^ 53" "\<bar>c\<bar> \<le> 2 ^ 53" "\<bar>d\<bar> \<le> 2 ^ 53"
  shows "bbox_list rnd (box (of_int a) (of_int b) (of_int c) (of_int d)) 1 1 = [a, b, c, d]"
  using assms by (simp add: bbox_list_def box_def rounded_int)

lemma area_strip:
  assumes "\<bar>a\<bar> \<le> 2 ^ 53"
  shows "area rnd (box 0 0 (of_int a) 1) = of_int a"
  using assms by (simp add: area_def box_def rounded_int)

lemma box_1000: "bbox_list rnd (box 0 0 1000 1) 1 1 = [0, 0, 1000, 1]"
  using bbox_list_integers [of 0 0 1000 1 rnd] by simp

lemma area_1000: "area rnd (box 0 0 1000 1) = 1000"
  using area_strip [of 1000 rnd] by simp

lemma area_child:
  "numeral w \<le> (2::int) ^ 53 \<Longrightarrow> area rnd (child_bbox (child_of_area (numeral w))) = numeral w"
  using area_strip [of "numeral w" rnd] by (simp add: child_of_area_def child_bbox_def)

lemma ratio_851: "rounded rnd (85 / 100) < rounded rnd (851 / 1000)"
proof -
  have "rounded rnd (85 / 100) \<le> rounded rnd (3482 / 4096)"
    by (rule rounded_mono) simp
  also have "rounded rnd (3482 / 4096) = 3482 / 4096"
    using rounded_dyadic [of 3482 12 rnd] by simp
  also have "(3482 / 4096 :: real) < 3485 / 4096"
    by simp
  also have "(3485 / 4096 :: real) = rounded rnd (3485 / 4096)"
    using rounded_dyadic [of 3485 12 rnd] by simp
  also have "rounded rnd (3485 / 4096) \<le> rounded rnd (851 / 1000)"
    by (rule rounded_mono) simp
  finally show ?thesis .
qed

lemma ratio_849: "\<not> rounded rnd (85 / 100) < rounded rnd (849 / 1000)"
  using rounded_mono [of "849 / 1000" "85 / 100" rnd] by simp

lemma at_or_below_threshold:
  "ratio \<le> 85 / 100 \<Longrightarrow> \<not> rounded rnd (85 / 100) < rounded rnd ratio"
  using rounded_mono [of ratio "85 / 100" rnd] by simp

lemma figure_facts:
  "element_type (figure_with b child) = ''figure''"
  "children (figure_with b child) = [child]"
  "inpainted_background_path (figure_with b child) = Some ''fig_bg.png''"
  "image_path (figure_with b child) = Some ''fig.png''"
  "select_bbox (figure_with b child) 0 = b"
  by (simp_all add: figure_with_def select_bbox_def)

lemma render_851:
  "should_use_recursive_render rnd (box 0 0 1000 1)
     (figure_with (box 0 0 1000 1) (child_of_area 851)) = Inr False"
  using ratio_851 [of rnd]
  by (simp add: should_use_recursive_render_eq figure_facts area_1000 area_child truthy_str_def)

lemma render_849:
  "should_use_recursive_render rnd (box 0 0 1000 1)
     (figure_with (box 0 0 1000 1) (child_of_area 849)) = Inr True"
  using ratio_849 [of rnd]
  by (simp add: should_use_recursive_render_eq figure_facts area_1000 area_child truthy_str_def)

lemma child_geometry:
  "add_editable_elements_to_slide rnd quiet_builder ex s [child_of_area 849] 1 1 1 =
     Inr (s @ [AddTextElement ''x'' [0, 0, 849, 1] (Some ''default'') None])"
proof -
  have "bbox_list rnd (box 0 0 849 1) 1 1 = [0, 0, 849, 1]"
    using bbox_list_integers [of 0 0 849 1 rnd] by simp
  then show ?thesis
    by (simp add: text_branch child_of_area_def select_bbox_def truthy_str_def str_of_def
        strip_x)
qed

lemma figure_851:
  "add_editable_element rnd quiet_builder all_files []
     (figure_with (box 0 0 1000 1) (child_of_area 851)) 1 1 0 =
     Inr [AddImageElement ''fig.png'' [0, 0, 1000, 1]]"
  by (simp add: flattened_branch figure_facts render_851 spec_flatten_def box_1000
      truthy_str_def str_of_def all_files_def)

lemma figure_849:
  "add_editable_element rnd quiet_builder all_files []
     (figure_with (box 0 0 1000 1) (child_of_area 849)) 1 1 0 =
     Inr [AddImageElement ''fig_bg.png'' [0, 0, 1000, 1],
          AddTextElement ''x'' [0, 0, 849, 1] (Some ''default'') None]"
  by (simp add: recursive_branch figure_facts render_849 box_1000 str_of_def all_files_def
      child_geometry del: add_editable_elements_to_slide.simps)

lemma pictorial_branches:
  assumes "element_type elem \<in> set [''image'', ''figure'', ''chart'']"
  shows "add_editable_element rnd B ex s elem sx sy depth =
     (if children elem \<noteq> [] \<and> truthy_str (inpainted_background_path elem)
         \<and> (0 < area rnd (select_bbox elem depth) \<longrightarrow>
              list_all (\<lambda>child. \<not> rounded rnd (85 / 100)
                  < rounded rnd (area rnd (child_bbox child) / area rnd (select_bbox elem depth)))
                (children elem))
      then add_editable_elements_to_slide rnd B ex
             (if ex (str_of (inpainted_background_path elem))
              then try_invoke B s (AddImageElement (str_of (inpainted_background_path elem))
                     (bbox_list rnd (select_bbox elem depth) sx sy))
              else s)
             (children elem) sx sy (depth + 1)
      else spec_flatten B ex s elem (bbox_list rnd (select_bbox elem depth) sx sy))"
proof -
  let ?enabled = "children elem \<noteq> [] \<and> truthy_str (inpainted_background_path elem)
         \<and> (0 < area rnd (select_bbox elem depth) \<longrightarrow>
              list_all (\<lambda>child. \<not> rounded rnd (85 / 100)
                  < rounded rnd (area rnd (child_bbox child) / area rnd (select_bbox elem depth)))
                (children elem))"
  have r: "should_use_recursive_render rnd (select_bbox elem depth) elem = Inr ?enabled"
    by (rule should_use_recursive_render_eq)
  show ?thesis
  proof (cases ?enabled)
    case True
    then have c: "?enabled = True"
      by simp
    have "should_use_recursive_render rnd (select_bbox elem depth) elem = Inr True"
      using r c by simp
    from recursive_branch [OF this assms] show ?thesis
      by (simp only: c if_True)
  next
    case False
    then have c: "?enabled = False"
      by simp
    have "should_use_recursive_render rnd (select_bbox elem depth) elem = Inr False"
      using r c by simp
    from flattened_branch [OF this assms] show ?thesis
      by (simp only: c if_False)
  qed
qed

text \<open>
  C3, as the code has it.  For an \<^verbatim>\<open>image\<close>, \<^verbatim>\<open>figure\<close> or \<^verbatim>\<open>chart\<close> element the engine
  recurses into the children exactly when the children are not empty, an inpainted
  background path is set and, where the area of the parent is positive, no child has a
  coverage ratio above the double \<^verbatim>\<open>0.85\<close>; otherwise it flattens the element.  The
  coverage ratio of a child is the quotient of doubles of its area (of its \<^verbatim>\<open>bbox_global\<close>
  when it has one, else of its \<^verbatim>\<open>bbox\<close>) by the area of the parent.  A child whose exact
  ratio is at most 0.85 is never dominant.  With a parent of area 1000 a child of area 851
  disables recursion and a child of area 849 leaves it enabled, whatever the rounding.
\<close>

theorem dominant_child_rule:
  "should_use_recursive_render rnd b elem =
     Inr (children elem \<noteq> [] \<and> truthy_str (inpainted_background_path elem)
          \<and> (0 < area rnd b \<longrightarrow>
               list_all (\<lambda>child. \<not> rounded rnd (85 / 100)
                                   < rounded rnd (area rnd (child_bbox child) / area rnd b))
                 (children elem)))
   \<and> (element_type elem \<in> set [''image'', ''figure'', ''chart''] \<longrightarrow>
        add_editable_element rnd B ex s elem sx sy depth =
          (if children elem \<noteq> [] \<and> truthy_str (inpainted_background_path elem)
              \<and> (0 < area rnd (select_bbox elem depth) \<longrightarrow>
                   list_all (\<lambda>child. \<not> rounded rnd (85 / 100)
                       < rounded rnd (area rnd (child_bbox child)
                                       / area rnd (select_bbox elem depth)))
                     (children elem))
           then add_editable_elements_to_slide rnd B ex
                  (if ex (str_of (inpainted_background_path elem))
                   then try_invoke B s
                          (AddImageElement (str_of (inpainted_background_path elem))
                             (bbox_list rnd (select_bbox elem depth) sx sy))
                   else s)
                  (children elem) sx sy (depth + 1)
           else spec_flatten B ex s elem (bbox_list rnd (select_bbox elem depth) sx sy)))
   \<and> (ratio \<le> 85 / 100 \<longrightarrow> \<not> rounded rnd (85 / 100) < rounded rnd ratio)
   \<and> area rnd (box 0 0 1000 1) = 1000
   \<and> area rnd (child_bbox (child_of_area 851)) = 851
   \<and> area rnd (child_bbox (child_of_area 849)) = 849
   \<and> should_use_recursive_render rnd (box 0 0 1000 1)
        (figure_with (box 0 0 1000 1) (child_of_area 851)) = Inr False
   \<and> should_use_recursive_render rnd (box 0 0 1000 1)
        (figure_with (box 0 0 1000 1) (child_of_area 849)) = Inr True
   \<and> add_editable_element rnd quiet_builder all_files []
        (figure_with (box 0 0 1000 1) (child_of_area 851)) 1 1 0 =
       Inr [AddImageElement ''fig.png'' [0, 0, 1000, 1]]
   \<and> add_editable_element rnd quiet_builder all_files []
        (figure_with (box 0 0 1000 1) (child_of_area 849)) 1 1 0 =
       Inr [AddImageElement ''fig_bg.png'' [0, 0, 1000, 1],
            AddTextElement ''x'' [0, 0, 849, 1] (Some ''default'') None]"
proof (intro conjI impI)
  show "should_use_recursive_render rnd b elem =
     Inr (children elem \<noteq> [] \<and> truthy_str (inpainted_background_path elem)
          \<and> (0 < area rnd b \<longrightarrow>
               list_all (\<lambda>child. \<not> rounded rnd (85 / 100)
                                   < rounded rnd (area rnd (child_bbox child) / area rnd b))
                 (children elem)))"
    by (rule should_use_recursive_render_eq)
  show "add_editable_element rnd B ex s elem sx sy depth =
          (if children elem \<noteq> [] \<and> truthy_str (inpainted_background_path elem)
              \<and> (0 < area rnd (select_bbox elem depth) \<longrightarrow>
                   list_all (\<lambda>child. \<not> rounded rnd (85 / 100)
                       < rounded rnd (area rnd (child_bbox child)
                                       / area rnd (select_bbox elem depth)))
                     (children elem))
           then add_editable_elements_to_slide rnd B ex
                  (if ex (str_of (inpainted_background_path elem))
                   then try_invoke B s
                          (AddImageElement (str_of (inpainted_background_path elem))
                             (bbox_list rnd (select_bbox elem depth) sx sy))
                   else s)
                  (children elem) sx sy (depth + 1)
           else spec_flatten B ex s elem (bbox_list rnd (select_bbox elem depth) sx sy))"
    if "element_type elem \<in> set [''image'', ''figure'', ''chart'']"
    using that by (rule pictorial_branches)
  show "\<not> rounded rnd (85 / 100) < rounded rnd ratio" if "ratio \<le> 85 / 100"
    using that by (rule at_or_below_threshold)
  show "area rnd (box 0 0 1000 1) = 1000"
    by (rule area_1000)
  show "area rnd (child_bbox (child_of_area 851)) = 851"
    by (simp add: area_child)
  show "area rnd (child_bbox (child_of_area 849)) = 849"
    by (simp add: area_child)
  show "should_use_recursive_render rnd (box 0 0 1000 1)
        (figure_with (box 0 0 1000 1) (child_of_area 851)) = Inr False"
    by (rule render_851)
  show "should_use_recursive_render rnd (box 0 0 1000 1)
        (figure_with (box 0 0 1000 1) (child_of_area 849)) = Inr True"
    by (rule render_849)
  show "add_editable_element rnd quiet_builder all_files []
        (figure_with (box 0 0 1000 1) (child_of_area 851)) 1 1 0 =
       Inr [AddImageElement ''fig.png'' [0, 0, 1000, 1]]"
    by (rule figure_851)
  show "add_editable_element rnd quiet_builder all_files []
        (figure_with (box 0 0 1000 1) (child_of_area 849)) 1 1 0 =
       Inr [AddImageElement ''fig_bg.png'' [0, 0, 1000, 1],
            AddTextElement ''x'' [0, 0, 849, 1] (Some ''default'') None]"
    by (rule figure_849)
qed

theorem dominant_child_rule_witness:
  "(0::real) < area exact (box 0 0 1000 1)
   \<and> element_type (figure_with (box 0 0 1000 1) (child_of_area 851))
       \<in> set [''image'', ''figure'', ''chart'']
   \<and> should_use_recursive_render exact (box 0 0 1000 1)
        (figure_with (box 0 0 1000 1) (child_of_area 851)) = Inr False
   \<and> \<not> list_all (\<lambda>child. \<not> rounded exact (85 / 100)
           < rounded exact (area exact (child_bbox child) / area exact (box 0 0 1000 1)))
         (children (figure_with (box 0 0 1000 1) (child_of_area 851)))
   \<and> add_editable_element exact quiet_builder all_files []
        (figure_with (box 0 0 1000 1) (child_of_area 851)) 1 1 0 =
       spec_flatten quiet_builder all_files [] (figure_with (box 0 0 1000 1) (child_of_area 851))
         (bbox_list exact (box 0 0 1000 1) 1 1)
   \<and> (849 / 1000 :: real) \<le> 85 / 100
   \<and> \<not> rounded exact (85 / 100) < rounded exact (849 / 1000)"
  using dominant_child_rule [where rnd = exact and b = "box 0 0 1000 1"
      and elem = "figure_with (box 0 0 1000 1) (child_of_area 851)" and B = quiet_builder
      and ex = all_files and s = "[]" and sx = 1 and sy = 1 and depth = 0
      and ratio = "849 / 1000"]
  by (simp add: figure_facts truthy_str_def area_1000 area_child)

lemma zero_area_any_rounding:
  "should_use_recursive_render rnd (box 5 5 5 9) (figure_with (box 5 5 5 9) (child_of_area 1))
     = Inr True
   \<and> \<not> spec_recursion_enabled rnd (box 5 5 5 9) (figure_with (box 5 5 5 9) (child_of_area 1))"
proof -
  have a: "area rnd (box 5 5 5 9) = 0"
    by (simp add: area_def box_def)
  have c: "area rnd (child_bbox (child_of_area 1)) = 1"
    by (simp add: area_def box_def child_of_area_def child_bbox_def)
  show ?thesis
    by (simp add: should_use_recursive_render_eq spec_recursion_enabled_def figure_facts a c
        truthy_str_def)
qed

theorem zero_area_parent_counterexample:
  "should_use_recursive_render exact (box 5 5 5 9) (figure_with (box 5 5 5 9) (child_of_area 1))
     = Inr True
   \<and> \<not> spec_recursion_enabled exact (box 5 5 5 9)
         (figure_with (box 5 5 5 9) (child_of_area 1))"
  by (rule zero_area_any_rounding)

text \<open>
  C10.  The coverage ratio of a child against a parent of area zero is 0, and the ratio is
  a value for every pair of areas: the division is never reached with a zero divisor, and
  the check as a whole gives a value.  A parent of area zero with children and a set
  inpainted background path has no dominant child: the check enables recursion, and an
  \<^verbatim>\<open>image\<close>, \<^verbatim>\<open>figure\<close> or \<^verbatim>\<open>chart\<close> element takes the branch that adds the background (if
  its file exists) and composes the children one level deeper.
\<close>

theorem zero_area_parent_recurses:
  "coverage_ratio rnd child_area 0 = Inr 0
   \<and> (\<exists>r. coverage_ratio rnd child_area parent_area = Inr r)
   \<and> (\<exists>d. has_dominant_child rnd parent_area cs = Inr d)
   \<and> (\<exists>r. should_use_recursive_render rnd b elem = Inr r)
   \<and> (area rnd (select_bbox elem depth) = 0 \<and> children elem \<noteq> []
        \<and> truthy_str (inpainted_background_path elem) \<longrightarrow>
        has_dominant_child rnd (area rnd (select_bbox elem depth)) (children elem) = Inr False
        \<and> should_use_recursive_render rnd (select_bbox elem depth) elem = Inr True
        \<and> (element_type elem \<in> set [''image'', ''figure'', ''chart''] \<longrightarrow>
             add_editable_element rnd B ex s elem sx sy depth =
               add_editable_elements_to_slide rnd B ex
                 (if ex (str_of (inpainted_background_path elem))
                  then try_invoke B s (AddImageElement (str_of (inpainted_background_path elem))
                         (bbox_list rnd (select_bbox elem depth) sx sy))
                  else s)
                 (children elem) sx sy (depth + 1)))"
proof -
  have "\<exists>d. has_dominant_child rnd parent_area cs = Inr d"
    using has_dominant_child_pos [of parent_area rnd cs]
      has_dominant_child_nonpos [of parent_area rnd cs]
    by (cases "0 < parent_area") auto
  moreover have "add_editable_element rnd B ex s elem sx sy depth =
               add_editable_elements_to_slide rnd B ex
                 (if ex (str_of (inpainted_background_path elem))
                  then try_invoke B s (AddImageElement (str_of (inpainted_background_path elem))
                         (bbox_list rnd (select_bbox elem depth) sx sy))
                  else s)
                 (children elem) sx sy (depth + 1)"
    if "should_use_recursive_render rnd (select_bbox elem depth) elem = Inr True"
      and "element_type elem \<in> set [''image'', ''figure'', ''chart'']"
    using that by (rule recursive_branch)
  moreover have "has_dominant_child rnd (area rnd (select_bbox elem depth)) (children elem)
      = Inr False"
    if "area rnd (select_bbox elem depth) = 0"
    using that
      has_dominant_child_nonpos [of "area rnd (select_bbox elem depth)" rnd "children elem"]
    by simp
  moreover have "should_use_recursive_render rnd (select_bbox elem depth) elem = Inr True"
    if "area rnd (select_bbox elem depth) = 0" "children elem \<noteq> []"
      "truthy_str (inpainted_background_path elem)"
    using that by (simp add: should_use_recursive_render_eq)
  moreover have "coverage_ratio rnd child_area 0 = Inr 0"
    by (simp add: coverage_ratio_zero)
  moreover have "\<exists>r. should_use_recursive_render rnd b elem = Inr r"
    by (simp add: should_use_recursive_render_eq)
  ultimately show ?thesis
    using coverage_ratio_total [of rnd child_area parent_area] by blast
qed

theorem zero_area_parent_recurses_witness:
  "area exact (select_bbox (figure_with (box 5 5 5 9) (child_of_area 849)) 0) = 0
   \<and> children (figure_with (box 5 5 5 9) (child_of_area 849)) \<noteq> []
   \<and> truthy_str (inpainted_background_path (figure_with (box 5 5 5 9) (child_of_area 849)))
   \<and> element_type (figure_with (box 5 5 5 9) (child_of_area 849))
       \<in> set [''image'', ''figure'', ''chart'']
   \<and> should_use_recursive_render exact (box 5 5 5 9)
        (figure_with (box 5 5 5 9) (child_of_area 849)) = Inr True
   \<and> add_editable_element exact quiet_builder all_files []
        (figure_with (box 5 5 5 9) (child_of_area 849)) 1 1 0 =
       Inr [AddImageElement ''fig_bg.png'' [5, 5, 5, 9],
            AddTextElement ''x'' [0, 0, 849, 1] (Some ''default'') None]"
proof -
  have bl: "bbox_list exact (box 5 5 5 9) 1 1 = [5, 5, 5, 9]"
    by (simp add: bbox_list_def py_int_def box_def)
  have sel: "select_bbox (figure_with (box 5 5 5 9) (child_of_area 849)) 0 = box 5 5 5 9"
    by (simp add: select_bbox_def figure_with_def)
  have f: "children (figure_with (box 5 5 5 9) (child_of_area 849)) = [child_of_area 849]"
    "inpainted_background_path (figure_with (box 5 5 5 9) (child_of_area 849)) = Some ''fig_bg.png''"
    "element_type (figure_with (box 5 5 5 9) (child_of_area 849)) = ''figure''"
    by (simp_all add: figure_with_def)
  have z: "area exact (box 5 5 5 9) = 0"
    by (simp add: area_def box_def)
  from zero_area_parent_recurses [where rnd = exact and child_area = 849 and parent_area = 0
      and cs = "[]" and b = "box 5 5 5 9"
      and elem = "figure_with (box 5 5 5 9) (child_of_area 849)" and depth = 0
      and B = quiet_builder and ex = all_files and s = "[]" and sx = 1 and sy = 1]
  show ?thesis
    by (simp add: sel f bl z truthy_str_def str_of_def all_files_def child_geometry
        del: add_editable_elements_to_slide.simps)
qed

text \<open>
  C2, as the code has it.  A \<^verbatim>\<open>table\<close> element with children whose
  \<^verbatim>\<open>inpainted_background_path\<close> is not set (\<^verbatim>\<open>None\<close> or empty) is flattened: the engine
  adds the image at \<^verbatim>\<open>image_path\<close> when that file exists and a placeholder otherwise, so
  the slide gains at most that one call and no child is visited.  When the path is set but
  names no existing file, the engine adds no background and composes the children one level
  deeper.
\<close>

theorem table_without_background:
  "element_type elem = ''table'' \<and> children elem \<noteq> [] \<longrightarrow>
     (\<not> truthy_str (inpainted_background_path elem) \<longrightarrow>
        add_editable_element rnd B ex s elem sx sy depth =
          spec_flatten B ex s elem (bbox_list rnd (select_bbox elem depth) sx sy)
        \<and> (add_editable_element rnd B ex s elem sx sy depth = Inr s' \<longrightarrow>
             s' = s
             \<or> s' = s @ [AddImageElement (str_of (image_path elem))
                           (bbox_list rnd (select_bbox elem depth) sx sy)]
             \<or> s' = s @ [AddImagePlaceholder (bbox_list rnd (select_bbox elem depth) sx sy)]))
     \<and> (truthy_str (inpainted_background_path elem)
          \<and> \<not> ex (str_of (inpainted_background_path elem)) \<longrightarrow>
        add_editable_element rnd B ex s elem sx sy depth =
          add_editable_elements_to_slide rnd B ex s (children elem) sx sy (depth + 1))"
proof -
  have "add_editable_element rnd B ex s elem sx sy depth =
          spec_flatten B ex s elem (bbox_list rnd (select_bbox elem depth) sx sy)"
    if "element_type elem = ''table''" "\<not> truthy_str (inpainted_background_path elem)"
    using that by (simp add: table_flattened)
  moreover have "add_editable_element rnd B ex s elem sx sy depth =
          add_editable_elements_to_slide rnd B ex s (children elem) sx sy (depth + 1)"
    if "element_type elem = ''table''" "children elem \<noteq> []"
      "truthy_str (inpainted_background_path elem)"
      "\<not> ex (str_of (inpainted_background_path elem))"
    using that by (simp add: table_recursive)
  ultimately show ?thesis
    using spec_flatten_cases [of B ex s elem "bbox_list rnd (select_bbox elem depth) sx sy" s']
    by metis
qed

lemma sample_table_facts:
  "element_type (sample_table bg) = ''table''"
  "children (sample_table bg) = [sample_cell]"
  "inpainted_background_path (sample_table bg) = bg"
  "image_path (sample_table bg) = Some ''table.png''"
  "select_bbox (sample_table bg) 0 = box 0 0 200 100"
  by (simp_all add: sample_table_def select_bbox_def)

lemma table_box: "bbox_list rnd (box 0 0 200 100) 1 1 = [0, 0, 200, 100]"
  using bbox_list_integers [of 0 0 200 100 rnd] by simp

lemma cell_composed:
  "add_editable_elements_to_slide exact quiet_builder ex s [sample_cell] 1 1 1 =
     Inr (s @ [AddTextElement ''A'' [10, 10, 60, 30] None (Some ''center'')])"
  by (simp add: add_editable_element.simps sample_cell_def select_bbox_def bbox_list_def
      py_int_def box_def truthy_str_def str_of_def strip_A)

theorem table_without_background_witness:
  "element_type (sample_table None) = ''table'' \<and> children (sample_table None) \<noteq> []
   \<and> \<not> truthy_str (inpainted_background_path (sample_table None))
   \<and> add_editable_element exact quiet_builder only_table_png [] (sample_table None) 1 1 0 =
       Inr [AddImageElement ''table.png'' [0, 0, 200, 100]]
   \<and> truthy_str (inpainted_background_path (sample_table (Some ''gone.png'')))
   \<and> \<not> only_table_png (str_of (inpainted_background_path (sample_table (Some ''gone.png''))))
   \<and> add_editable_element exact quiet_builder only_table_png []
        (sample_table (Some ''gone.png'')) 1 1 0 =
       Inr [AddTextElement ''A'' [10, 10, 60, 30] None (Some ''center'')]"
proof -
  note a = table_without_background [of "sample_table None" exact quiet_builder
      only_table_png "[]" 1 1 0 "[AddImageElement ''table.png'' [0, 0, 200, 100]]"]
  note b = table_without_background [of "sample_table (Some ''gone.png'')" exact
      quiet_builder only_table_png "[]" 1 1 0 "[]"]
  from a b show ?thesis
    by (simp add: sample_table_facts table_box truthy_str_def str_of_def only_table_png_def
        spec_flatten_def cell_composed del: add_editable_elements_to_slide.simps)
qed

theorem table_missing_background_counterexample:
  "truthy_str (inpainted_background_path (sample_table (Some ''gone.png'')))
   \<and> \<not> only_table_png (str_of (inpainted_background_path (sample_table (Some ''gone.png''))))
   \<and> add_editable_element exact quiet_builder only_table_png []
        (sample_table (Some ''gone.png'')) 1 1 0 =
       Inr [AddTextElement ''A'' [10, 10, 60, 30] None (Some ''center'')]
   \<and> spec_flatten quiet_builder only_table_png [] (sample_table (Some ''gone.png''))
        (bbox_list exact (select_bbox (sample_table (Some ''gone.png'')) 0) 1 1) =
       Inr [AddImageElement ''table.png'' [0, 0, 200, 100]]
   \<and> add_editable_element exact quiet_builder only_table_png []
        (sample_table (Some ''gone.png'')) 1 1 0 \<noteq>
       spec_flatten quiet_builder only_table_png [] (sample_table (Some ''gone.png''))
        (bbox_list exact (select_bbox (sample_table (Some ''gone.png'')) 0) 1 1)"
proof -
  have "add_editable_element exact quiet_builder only_table_png []
        (sample_table (Some ''gone.png'')) 1 1 0 =
       Inr [AddTextElement ''A'' [10, 10, 60, 30] None (Some ''center'')]"
    by (simp add: table_recursive sample_table_facts truthy_str_def str_of_def
        only_table_png_def cell_composed del: add_editable_elements_to_slide.simps)
  then show ?thesis
    by (simp add: sample_table_facts table_box truthy_str_def str_of_def only_table_png_def
        spec_flatten_def)
qed

subsection \<open>Fault containment\<close>













subsection \<open>Page analysis batch\<close>

lemma collect_results_success:
  assumes "\<forall>idx \<in> set order. idx < length rs"
    and "length results = length rs"
  shows "collect_results (map Inr rs) order results =
     Inr (fold (\<lambda>idx res. res[idx := Some (rs ! idx)]) order results)"
  using assms by (induction order arbitrary: results) simp_all

lemma fold_update_length:
  "length (fold (\<lambda>idx res. res[idx := Some (rs ! idx)]) order results) = length results"
  by (induction order arbitrary: results) simp_all

lemma fold_update_nth:
  "i < length results \<Longrightarrow>
   fold (\<lambda>idx res. res[idx := Some (rs ! idx)]) order results ! i =
     (if i \<in> set order then Some (rs ! i) else results ! i)"
  by (induction order arbitrary: results) (auto simp: nth_list_update)

lemma fold_update_all:
  assumes "set order = {..<length rs}"
  shows "fold (\<lambda>idx res. res[idx := Some (rs ! idx)]) order (replicate (length rs) None) =
     map Some rs"
  by (rule nth_equalityI) (simp_all add: fold_update_length fold_update_nth assms)

lemma collect_results_failure:
  assumes "\<forall>idx \<in> set order. idx < length futures"
    and "length results = length futures"
    and "\<exists>idx \<in> set order. \<exists>e. futures ! idx = Inl e"
  shows "\<exists>e idx. idx < length futures \<and> futures ! idx = Inl e
           \<and> collect_results futures order results = Inl e"
  using assms
proof (induction order arbitrary: results)
  case Nil
  then show ?case by simp
next
  case (Cons idx order)
  show ?case
  proof (cases "futures ! idx")
    case (Inl e)
    moreover have "idx < length futures" "idx < length results"
      using Cons.prems(1,2) by simp_all
    ultimately show ?thesis by auto
  next
    case (Inr r)
    then have a: "\<exists>idx \<in> set order. \<exists>e. futures ! idx = Inl e"
      using Cons.prems(3) by auto
    have b: "length (results[idx := Some r]) = length futures"
      using Cons.prems(2) by simp
    have c: "\<forall>idx \<in> set order. idx < length futures"
      using Cons.prems(1) by simp
    have "\<exists>e j. j < length futures \<and> futures ! j = Inl e
           \<and> collect_results futures order (results[idx := Some r]) = Inl e"
      by (rule Cons.IH [OF c b a])
    moreover have "idx < length futures" "idx < length results"
      using Cons.prems(1,2) by simp_all
    ultimately show ?thesis using Inr by simp
  qed
qed

lemma completion_order_set:
  assumes "mset order = mset [0..<n]"
  shows "set order = {..<n}"
proof -
  have "set order = set [0..<n]"
    by (rule mset_eq_setD [OF assms])
  then show ?thesis
    by (simp add: atLeast0LessThan)
qed

lemma analyse_batch_success:
  assumes "mset order = mset [0..<length paths]"
    and "map mk paths = map Inr analyses"
  shows "analyse_batch mk paths order = Inr (map Some analyses)"
proof -
  have len: "length analyses = length paths"
    using arg_cong [OF assms(2), of length] by simp
  have s: "set order = {..<length analyses}"
    using completion_order_set [OF assms(1)] len by simp
  show ?thesis
    using collect_results_success [of order analyses "replicate (length analyses) None"]
      fold_update_all [OF s] s
    by (simp add: analyse_batch_def assms(2) len)
qed

lemma analyse_batch_failure:
  assumes "mset order = mset [0..<length paths]"
    and "i < length paths" and "mk (paths ! i) = Inl e"
  shows "\<exists>e' j. j < length paths \<and> mk (paths ! j) = Inl e'
           \<and> analyse_batch mk paths order = Inl e'"
proof -
  have s: "set order = {..<length paths}"
    using completion_order_set [OF assms(1)] .
  have "\<exists>idx \<in> set order. \<exists>e. map mk paths ! idx = Inl e"
    using s assms(2,3) by auto
  then have "\<exists>e' idx. idx < length (map mk paths) \<and> map mk paths ! idx = Inl e'
           \<and> collect_results (map mk paths) order (replicate (length paths) None) = Inl e'"
    using collect_results_failure [of order "map mk paths" "replicate (length paths) None"] s
    by simp
  then show ?thesis
    by (auto simp: analyse_batch_def)
qed


text \<open>
  C7.  When every future is handed over once, in whatever order, and every page analysis
  returns, the result sequence holds the analysis of page \<open>i\<close> at position \<open>i\<close>: it is the
  list of the analyses in the order of the input images, and the document is assembled from
  that list as if the caller had passed it.
\<close>

theorem page_order_preserved:
  "mset completion_order = mset [0..<length image_paths]
   \<and> map make_image_editable image_paths = map Inr analyses \<longrightarrow>
     analyse_batch make_image_editable image_paths completion_order = Inr (map Some analyses)
     \<and> (\<forall>i < length image_paths. make_image_editable (image_paths ! i) = Inr (analyses ! i))
     \<and> (image_paths \<noteq> [] \<longrightarrow>
          create_editable_pptx_with_recursive_analysis rnd B ex (Inr make_image_editable)
            completion_order (Some image_paths) output_file None =
          create_editable_pptx_with_recursive_analysis rnd B ex other_service other_order other_paths
            output_file (Some (map Some analyses)))"
proof (intro impI, elim conjE)
  assume o: "mset completion_order = mset [0..<length image_paths]"
    and a: "map make_image_editable image_paths = map Inr analyses"
  have r: "analyse_batch make_image_editable image_paths completion_order =
      Inr (map Some analyses)"
    by (rule analyse_batch_success [OF o a])
  have "make_image_editable (image_paths ! i) = Inr (analyses ! i)" if "i < length image_paths" for i
  proof -
    have "length analyses = length image_paths"
      using arg_cong [OF a, of length] by simp
    then have "map make_image_editable image_paths ! i = map Inr analyses ! i"
      using a by simp
    then show ?thesis
      using that \<open>length analyses = length image_paths\<close> by simp
  qed
  moreover have "create_editable_pptx_with_recursive_analysis rnd B ex (Inr make_image_editable)
            completion_order (Some image_paths) output_file None =
          create_editable_pptx_with_recursive_analysis rnd B ex other_service other_order other_paths
            output_file (Some (map Some analyses))" if "image_paths \<noteq> []"
    using that by (simp add: create_editable_pptx_with_recursive_analysis_def r)
  ultimately show "analyse_batch make_image_editable image_paths completion_order =
        Inr (map Some analyses)
     \<and> (\<forall>i < length image_paths. make_image_editable (image_paths ! i) = Inr (analyses ! i))
     \<and> (image_paths \<noteq> [] \<longrightarrow>
          create_editable_pptx_with_recursive_analysis rnd B ex (Inr make_image_editable)
            completion_order (Some image_paths) output_file None =
          create_editable_pptx_with_recursive_analysis rnd B ex other_service other_order other_paths
            output_file (Some (map Some analyses)))"
    using r by blast
qed

lemma order_201: "mset [2, 0, 1] = mset [0..<length three_pages]"
proof -
  have "[0..<length three_pages] = [0, 1, 2]"
    by (simp add: three_pages_def upt_rec)
  then show ?thesis
    by simp
qed

theorem page_order_preserved_witness:
  "mset [2, 0, 1] = mset [0..<length three_pages]
   \<and> map healthy_analysis three_pages = map Inr (map sample_page three_pages)
   \<and> three_pages \<noteq> []
   \<and> analyse_batch healthy_analysis three_pages [2, 0, 1] =
       Inr [Some (sample_page ''p1.png''), Some (sample_page ''p2.png''),
            Some (sample_page ''p3.png'')]"
proof -
  have m: "map healthy_analysis three_pages = map Inr (map sample_page three_pages)"
    by (simp add: healthy_analysis_def)
  from page_order_preserved [of "[2, 0, 1]" three_pages healthy_analysis
      "map sample_page three_pages" exact quiet_builder no_files None "Inl ValueError" "[]"
      None]
    order_201 m
  show ?thesis
    by (simp add: three_pages_def)
qed

text \<open>
  C6.  When every future is handed over once and the analysis of some page raises, the
  batch raises an exception that the analysis of one of its pages raised, and the whole call
  raises it too: it returns neither a saved file nor bytes, whatever the other pages gave.
\<close>

theorem batch_fail_fast:
  "mset completion_order = mset [0..<length image_paths]
   \<and> i < length image_paths \<and> make_image_editable (image_paths ! i) = Inl e \<longrightarrow>
     (\<exists>e' j. j < length image_paths \<and> make_image_editable (image_paths ! j) = Inl e'
        \<and> analyse_batch make_image_editable image_paths completion_order = Inl e'
        \<and> create_editable_pptx_with_recursive_analysis rnd B ex (Inr make_image_editable)
            completion_order (Some image_paths) output_file None = Inl e')"
proof (intro impI, elim conjE)
  assume o: "mset completion_order = mset [0..<length image_paths]"
    and i: "i < length image_paths" and e: "make_image_editable (image_paths ! i) = Inl e"
  obtain e' j where j: "j < length image_paths" "make_image_editable (image_paths ! j) = Inl e'"
    and r: "analyse_batch make_image_editable image_paths completion_order = Inl e'"
    using analyse_batch_failure [of completion_order image_paths i make_image_editable e] o i e
    by blast
  have "image_paths \<noteq> []"
    using i by auto
  then have "create_editable_pptx_with_recursive_analysis rnd B ex (Inr make_image_editable)
            completion_order (Some image_paths) output_file None = Inl e'"
    by (simp add: create_editable_pptx_with_recursive_analysis_def r)
  then show "\<exists>e' j. j < length image_paths \<and> make_image_editable (image_paths ! j) = Inl e'
        \<and> analyse_batch make_image_editable image_paths completion_order = Inl e'
        \<and> create_editable_pptx_with_recursive_analysis rnd B ex (Inr make_image_editable)
            completion_order (Some image_paths) output_file None = Inl e'"
    using j r by blast
qed

theorem batch_fail_fast_witness:
  "mset [2, 0, 1] = mset [0..<length three_pages]
   \<and> (1::nat) < length three_pages
   \<and> sample_analysis (three_pages ! 1) = Inl (AnalysisError ''p2'')
   \<and> sample_analysis (three_pages ! 0) = Inr (sample_page ''p1.png'')
   \<and> sample_analysis (three_pages ! 2) = Inr (sample_page ''p3.png'')
   \<and> create_editable_pptx_with_recursive_analysis exact quiet_builder no_files (Inr sample_analysis)
        [2, 0, 1] (Some three_pages) None None = Inl (AnalysisError ''p2'')"
proof -
  have a: "sample_analysis (three_pages ! 1) = Inl (AnalysisError ''p2'')"
    "sample_analysis (three_pages ! 0) = Inr (sample_page ''p1.png'')"
    "sample_analysis (three_pages ! 2) = Inr (sample_page ''p3.png'')"
    by (simp_all add: sample_analysis_def three_pages_def)
  have l: "(1::nat) < length three_pages"
    by (simp add: three_pages_def)
  have u: "sample_analysis (three_pages ! j) = Inl e' \<Longrightarrow> e' = AnalysisError ''p2''" for j e'
    by (simp add: sample_analysis_def split: if_splits)
  from batch_fail_fast [of "[2, 0, 1]" three_pages 1 sample_analysis "AnalysisError ''p2''"
      exact quiet_builder no_files None] order_201 l a(1)
  obtain e' j where "sample_analysis (three_pages ! j) = Inl e'"
    "create_editable_pptx_with_recursive_analysis exact quiet_builder no_files (Inr sample_analysis)
        [2, 0, 1] (Some three_pages) None None = Inl e'"
    by blast
  then show ?thesis
    using u order_201 l a by blast
qed

subsection \<open>Inpaint providers\<close>

lemma default_never_raises:
  "\<exists>r. default_inpaint_regions svc img bboxes types kwargs = Inr r"
  by (cases "default_try_block svc img bboxes kwargs")
    (simp_all add: default_inpaint_regions_def)

lemma default_error_is_None:
  "default_try_block svc img bboxes kwargs = Inl e \<Longrightarrow>
   default_inpaint_regions svc img bboxes types kwargs = Inr None"
  by (simp add: default_inpaint_regions_def)

lemma generative_never_raises:
  "\<exists>r. fst (generative_inpaint_regions env ar res files img bboxes types kwargs) = Inr r"
  by (simp add: generative_inpaint_regions_def Let_def split: prod.split sum.split)

lemma generative_error_is_None:
  "fst (generative_try_block env
          (case kw_aspect_ratio kwargs of None \<Rightarrow> Some ar | Some v \<Rightarrow> v)
          (case kw_resolution kwargs of None \<Rightarrow> Some res | Some v \<Rightarrow> v) files img) = Inl e \<Longrightarrow>
   fst (generative_inpaint_regions env ar res files img bboxes types kwargs) = Inr None"
  by (cases "generative_try_block env
          (case kw_aspect_ratio kwargs of None \<Rightarrow> Some ar | Some v \<Rightarrow> v)
          (case kw_resolution kwargs of None \<Rightarrow> Some res | Some v \<Rightarrow> v) files img")
    (auto simp: generative_inpaint_regions_def Let_def split: sum.splits)

lemma try_block_files:
  "snd (generative_try_block env ar res files img) =
     (case get_clean_background_prompt env of
        Inl e \<Rightarrow> files
      | Inr prompt \<Rightarrow>
          (case named_temporary_file env files of
             Inl e \<Rightarrow> files
           | Inr tmp_path \<Rightarrow> insert tmp_path files))"
  by (simp add: generative_try_block_def Let_def
      split: sum.split option.split edit_result.split)

lemma generative_files:
  "snd (generative_inpaint_regions env ar res files img bboxes types kwargs) =
     snd (generative_try_block env
          (case kw_aspect_ratio kwargs of None \<Rightarrow> Some ar | Some v \<Rightarrow> v)
          (case kw_resolution kwargs of None \<Rightarrow> Some res | Some v \<Rightarrow> v) files img)"
  by (simp add: generative_inpaint_regions_def Let_def split: prod.split sum.split)

text \<open>
  C8.  Both strategies return a value on every input: an image or \<^verbatim>\<open>None\<close>.  Whatever the
  body of the \<^verbatim>\<open>try\<close> block raises, the method returns \<^verbatim>\<open>None\<close>.
\<close>

theorem inpaint_never_raises:
  "(\<exists>r. default_inpaint_regions svc img bboxes types kwargs = Inr r)
   \<and> (default_try_block svc img bboxes kwargs = Inl e \<longrightarrow>
        default_inpaint_regions svc img bboxes types kwargs = Inr None)
   \<and> (\<exists>r. fst (generative_inpaint_regions env ar res files gimg bboxes types gkwargs) = Inr r)
   \<and> (fst (generative_try_block env
          (case kw_aspect_ratio gkwargs of None \<Rightarrow> Some ar | Some v \<Rightarrow> v)
          (case kw_resolution gkwargs of None \<Rightarrow> Some res | Some v \<Rightarrow> v) files gimg) = Inl e' \<longrightarrow>
        fst (generative_inpaint_regions env ar res files gimg bboxes types gkwargs) = Inr None)"
proof (intro conjI impI)
  show "\<exists>r. default_inpaint_regions svc img bboxes types kwargs = Inr r"
    by (rule default_never_raises)
  show "default_inpaint_regions svc img bboxes types kwargs = Inr None"
    if "default_try_block svc img bboxes kwargs = Inl e"
    using that by (rule default_error_is_None)
  show "\<exists>r. fst (generative_inpaint_regions env ar res files gimg bboxes types gkwargs) = Inr r"
    by (rule generative_never_raises)
  show "fst (generative_inpaint_regions env ar res files gimg bboxes types gkwargs) = Inr None"
    if "fst (generative_try_block env
          (case kw_aspect_ratio gkwargs of None \<Rightarrow> Some ar | Some v \<Rightarrow> v)
          (case kw_resolution gkwargs of None \<Rightarrow> Some res | Some v \<Rightarrow> v) files gimg) = Inl e'"
    using that by (rule generative_error_is_None)
qed

theorem inpaint_never_raises_witness:
  "default_try_block failing_service ''page.png'' [(0, 0, 10, 10)] no_default_kwargs =
     Inl (ServiceError ''inpainting'')
   \<and> default_inpaint_regions failing_service ''page.png'' [(0, 0, 10, 10)] None no_default_kwargs =
       Inr None
   \<and> fst (generative_try_block (sample_env (Inl (ServiceError ''edit'')))
          (Some ''16:9'') (Some ''2K'') {} ''page.png'') = Inl (ServiceError ''edit'')
   \<and> fst (generative_inpaint_regions (sample_env (Inl (ServiceError ''edit''))) ''16:9'' ''2K'' {}
          ''page.png'' [(0, 0, 10, 10)] None no_generative_kwargs) = Inr None
   \<and> default_inpaint_regions working_service ''page.png'' [(0, 0, 10, 10)] None no_default_kwargs =
       Inr (Some ''page.png.clean'')"
proof -
  have a: "default_try_block failing_service ''page.png'' [(0, 0, 10, 10)] no_default_kwargs =
     Inl (ServiceError ''inpainting'')"
    by (simp add: default_try_block_def failing_service_def)
  have b: "fst (generative_try_block (sample_env (Inl (ServiceError ''edit'')))
          (Some ''16:9'') (Some ''2K'') {} ''page.png'') = Inl (ServiceError ''edit'')"
    by (simp add: generative_try_block_def sample_env_def fixed_temporary_file_def saving_def
        answering_def)
  have c: "default_inpaint_regions working_service ''page.png'' [(0, 0, 10, 10)] None
      no_default_kwargs = Inr (Some ''page.png.clean'')"
    by (simp add: default_inpaint_regions_def default_try_block_def working_service_def)
  from inpaint_never_raises [of failing_service "''page.png''" "[(0, 0, 10, 10)]" None
      no_default_kwargs "ServiceError ''inpainting''" "sample_env (Inl (ServiceError ''edit''))"
      "''16:9''" "''2K''" "{}" "''page.png''" no_generative_kwargs "ServiceError ''edit''"]
    a b c
  show ?thesis
    by (simp add: no_generative_kwargs_def)
qed

text \<open>
  C9, as the code has it.  The generative strategy never deletes a file.  Once the prompt
  is there and the temporary file has been created, the file exists when the call returns,
  on every path: with an image, with \<^verbatim>\<open>None\<close>, and after an exception of \<^verbatim>\<open>image.save\<close> or
  of \<^verbatim>\<open>edit_image\<close>.  When the call does not get as far as creating the file, the file
  system is as it was.
\<close>

theorem temporary_file_survives:
  "(get_clean_background_prompt env = Inr prompt \<and> named_temporary_file env files = Inr tmp_path \<longrightarrow>
      snd (generative_inpaint_regions env ar res files img bboxes types kwargs) =
        insert tmp_path files)
   \<and> (get_clean_background_prompt env = Inl e \<or> named_temporary_file env files = Inl e \<longrightarrow>
      snd (generative_inpaint_regions env ar res files img bboxes types kwargs) = files)
   \<and> files \<subseteq> snd (generative_inpaint_regions env ar res files img bboxes types kwargs)"
  by (auto simp: generative_files try_block_files split: sum.splits)

theorem temporary_file_survives_witness:
  "get_clean_background_prompt (sample_env (Inl (ServiceError ''edit''))) =
     Inr ''remove text and icons''
   \<and> named_temporary_file (sample_env (Inl (ServiceError ''edit''))) {''page.png''} =
       Inr ''/tmp/tmp0.png''
   \<and> generative_inpaint_regions (sample_env (Inl (ServiceError ''edit''))) ''16:9'' ''2K''
        {''page.png''} ''page.png'' [] None no_generative_kwargs =
       (Inr None, {''/tmp/tmp0.png'', ''page.png''})
   \<and> named_temporary_file full_disk_env {''page.png''} = Inl (ServiceError ''no space left'')
   \<and> generative_inpaint_regions full_disk_env ''16:9'' ''2K''
        {''page.png''} ''page.png'' [] None no_generative_kwargs = (Inr None, {''page.png''})"
proof -
  have p: "get_clean_background_prompt (sample_env (Inl (ServiceError ''edit''))) =
     Inr ''remove text and icons''"
    "named_temporary_file (sample_env (Inl (ServiceError ''edit''))) {''page.png''} =
       Inr ''/tmp/tmp0.png''"
    by (simp_all add: sample_env_def fixed_temporary_file_def)
  have f: "fst (generative_inpaint_regions (sample_env (Inl (ServiceError ''edit''))) ''16:9'' ''2K''
        {''page.png''} ''page.png'' [] None no_generative_kwargs) = Inr None"
    by (simp add: generative_inpaint_regions_def generative_try_block_def sample_env_def
        fixed_temporary_file_def saving_def answering_def no_generative_kwargs_def)
  have q: "named_temporary_file full_disk_env {''page.png''} = Inl (ServiceError ''no space left'')"
    by (simp add: full_disk_env_def failing_temporary_file_def)
  have g: "fst (generative_inpaint_regions full_disk_env ''16:9'' ''2K''
        {''page.png''} ''page.png'' [] None no_generative_kwargs) = Inr None"
    by (simp add: generative_inpaint_regions_def generative_try_block_def full_disk_env_def
        failing_temporary_file_def no_generative_kwargs_def)
  from temporary_file_survives [of "sample_env (Inl (ServiceError ''edit''))"
      "''remove text and icons''" "{''page.png''}" "''/tmp/tmp0.png''" "''16:9''" "''2K''"
      "''page.png''" "[]" None no_generative_kwargs "ValueError"]
    temporary_file_survives [of full_disk_env
      "''remove text and icons''" "{''page.png''}" "''/tmp/tmp0.png''" "''16:9''" "''2K''"
      "''page.png''" "[]" None no_generative_kwargs "ServiceError ''no space left''"]
    p f q g
  show ?thesis
    by (simp add: prod_eq_iff)
qed

theorem temporary_file_left_behind_counterexample:
  "generative_inpaint_regions (sample_env (Inr (PilImage ''clean.png''))) ''16:9'' ''2K'' {}
     ''page.png'' [] None no_generative_kwargs = (Inr (Some ''clean.png''), {''/tmp/tmp0.png''})
   \<and> ''/tmp/tmp0.png'' \<in> snd (generative_inpaint_regions
         (sample_env (Inr (PilImage ''clean.png''))) ''16:9'' ''2K'' {} ''page.png'' [] None
         no_generative_kwargs)"
  by (simp add: generative_inpaint_regions_def generative_try_block_def sample_env_def
      fixed_temporary_file_def saving_def answering_def no_generative_kwargs_def)

end
